theory Spec2Isabelle
  imports Main "HOL-Library.Log_Nat" "HOL-Library.AList"
begin

section \<open>Data model of the OpenID Connect configuration validator\<close>

text \<open>
  The development embeds \<^verbatim>\<open>internal/configuration/validator/identity_providers.go\<close>.
  Go strings are \<open>string\<close>, slices are lists, a nil-able pointer is an \<open>option\<close>, and the
  configuration the validator mutates in place is passed in and returned.
  Names are those of the source; where two Go fields share a name the second is set apart
  (\<open>Disc\<close> is \<^verbatim>\<open>config.Discovery\<close>, \<open>CDiscovery\<close> the \<^verbatim>\<open>Discovery\<close> of a client,
  \<open>DiscAuthorizationPolicies\<close> is \<^verbatim>\<open>config.Discovery.AuthorizationPolicies\<close>).
\<close>

subsection \<open>Keys, certificate chains and JSON Web Keys\<close>

text \<open>
  The dynamic type of \<^verbatim>\<open>schema.JWK.Key\<close>, as the type switches of the validator see it. An RSA key
  carries its modulus \<^verbatim>\<open>N *big.Int\<close>, which may be nil.
\<close>

datatype CryptographicKey =
    KeyNil
  | RSAPrivateKey "nat option"
  | ECDSAPrivateKey
  | RSAPublicKey "nat option"
  | ECDSAPublicKey
  | OtherKey string

text \<open>
  \<^verbatim>\<open>(*rsa.PublicKey).Size()\<close> of the Go standard library: the modulus size in bytes,
  \<^verbatim>\<open>(N.BitLen() + 7) / 8\<close>; \<open>floorlog 2 n\<close> is the bit length of \<open>n\<close>.
\<close>

definition BitLen :: "nat \<Rightarrow> nat" where
  "BitLen n = floorlog 2 n"

definition Size :: "nat \<Rightarrow> nat" where
  "Size n = (BitLen n + 7) div 8"

datatype X509CertificateChain = X509CertificateChain (certs: "string list")

record JWK =
  KeyID :: string
  Use :: string
  Algorithm :: string
  Key :: CryptographicKey
  CertificateChain :: X509CertificateChain

record JWKProperties =
  PropsUse :: string
  PropsAlgorithm :: string

subsection \<open>Authorization policies\<close>

record PolicyRule =
  Policy :: string
  Subjects :: "string list list"

record AuthorizationPolicy =
  DefaultPolicy :: string
  Rules :: "PolicyRule list"

subsection \<open>Clients\<close>

datatype PasswordDigest = PasswordDigest (IsPlainText: bool)

record URL =
  Scheme :: string

record ClientPublicKeys =
  URI :: "URL option"
  Values :: "JWK list"

record ClientDiscovery =
  ClientRequestObjectSigningAlgs :: "string list"

text \<open>The fields of \<^verbatim>\<open>schema.IdentityProvidersOpenIDConnectClient\<close> that the embedded functions use.\<close>

record Client =
  ID :: string
  Secret :: "PasswordDigest option"
  Public :: bool
  ResponseTypes :: "string list"
  ConsentMode :: string
  ConsentPreConfiguredDuration :: "int option"
  TokenEndpointAuthMethod :: string
  TokenEndpointAuthSigningAlg :: string
  RequestObjectSigningAlg :: string
  AuthorizationSignedResponseAlg :: string
  AuthorizationSignedResponseKeyID :: string
  IDTokenSignedResponseAlg :: string
  IDTokenSignedResponseKeyID :: string
  AccessTokenSignedResponseAlg :: string
  AccessTokenSignedResponseKeyID :: string
  UserinfoSignedResponseAlg :: string
  UserinfoSignedResponseKeyID :: string
  IntrospectionSignedResponseAlg :: string
  IntrospectionSignedResponseKeyID :: string
  PublicKeys :: ClientPublicKeys
  CDiscovery :: ClientDiscovery

subsection \<open>The provider configuration and its discovery aggregate\<close>

record Discovery =
  DiscAuthorizationPolicies :: "string list"
  DefaultKeyIDs :: "string \<rightharpoonup> string"
  ResponseObjectSigningKeyIDs :: "string list"
  ResponseObjectSigningAlgs :: "string list"
  RequestObjectSigningAlgs :: "string list"
  JWTResponseAccessTokens :: bool

text \<open>
  \<open>AuthorizationPolicies\<close> is a Go map; the association list gives its entries in the order in
  which \<^verbatim>\<open>range\<close> visits them, an order the Go runtime leaves open.
\<close>

record Config =
  IssuerPrivateKeys :: "JWK list"
  AuthorizationPolicies :: "(string \<times> AuthorizationPolicy) list"
  Clients :: "Client list"
  Disc :: Discovery

subsection \<open>The validator's output channel\<close>

text \<open>
  \<^verbatim>\<open>fmt.Errorf(format, args...)\<close>: the format constants are declared outside this file, so an error
  is the constant's name with its arguments. \<open>Name\<close> is an attribute constant, given by name.
\<close>

datatype Arg =
    Str string
  | Num nat
  | Name string
  | StrJoinOr "string list"
  | StrJoinAnd "string list"
  | KeyArg CryptographicKey

datatype Error = Errorf string "Arg list"

record StructValidator =
  errors :: "Error list"
  warnings :: "Error list"

definition Push :: "StructValidator \<Rightarrow> Error \<Rightarrow> StructValidator" where
  "Push validator e = validator\<lparr>errors := errors validator @ [e]\<rparr>"

definition PushWarning :: "StructValidator \<Rightarrow> Error \<Rightarrow> StructValidator" where
  "PushWarning validator e = validator\<lparr>warnings := warnings validator @ [e]\<rparr>"

subsection \<open>Declarations from outside the file\<close>

text \<open>
  Constants, tables and helpers of the packages \<^verbatim>\<open>oidc\<close>, \<^verbatim>\<open>schema\<close>, \<^verbatim>\<open>utils\<close> and of the
  validator's own constant file, which the embedded functions use and whose text is outside
  the embedded file. They are parameters of the embedding: every theorem holds for all their values.
  An \<^verbatim>\<open>error\<close> result is its message, \<open>None\<close> for nil.
\<close>

record Externals =
  SigningAlgRSAUsingSHA256 :: string
  SigningAlgNone :: string
  SigningAlgHMACUsingSHA256 :: string
  KeyUseSignature :: string
  schemeHTTPS :: string
  auto :: string
  ClientConsentModePreConfigured :: string
  ClientConsentModeExplicit :: string
  ClientAuthMethodNone :: string
  ClientAuthMethodClientSecretJWT :: string
  ClientAuthMethodClientSecretPost :: string
  ClientAuthMethodClientSecretBasic :: string
  ClientAuthMethodPrivateKeyJWT :: string
  validOIDCIssuerJWKSigningAlgs :: "string list"
  validOIDCClientConsentModes :: "string list"
  validOIDCClientResponseTypesImplicitFlow :: "string list"
  validOIDCClientTokenEndpointAuthMethods :: "string list"
  validOIDCClientTokenEndpointAuthMethodsConfidential :: "string list"
  validOIDCClientTokenEndpointAuthSigAlgsClientSecretJWT :: "string list"
  DefaultPolicyConfigurationDefaultPolicy :: string
  DefaultConsentPreConfiguredDuration :: "int option"
  DefaultAuthorizationSignedResponseAlg :: string
  DefaultIDTokenSignedResponseAlg :: string
  DefaultAccessTokenSignedResponseAlg :: string
  DefaultUserinfoSignedResponseAlg :: string
  DefaultIntrospectionSignedResponseAlg :: string
  jwkCalculateThumbprint :: "CryptographicKey \<Rightarrow> string \<times> string option"
  schemaJWKGetProperties :: "JWK \<Rightarrow> string + JWKProperties"
  reOpenIDConnectKIDMatchString :: "string \<Rightarrow> bool"
  HasCertificates :: "X509CertificateChain \<Rightarrow> bool"
  EqualKey :: "X509CertificateChain \<Rightarrow> CryptographicKey \<Rightarrow> bool"
  Validate :: "X509CertificateChain \<Rightarrow> string option"

text \<open>
  Modelled from the spec: \<^verbatim>\<open>utils.IsStringInSlice(needle, haystack)\<close>, a helper of the package
  \<^verbatim>\<open>utils\<close> outside the embedded file. The specification reads its uses as membership
  ("append to discoveryAlgs if not already present", "must appear in the discovery algorithm
  set"): whether the slice holds the string.
\<close>

definition IsStringInSlice :: "string \<Rightarrow> string list \<Rightarrow> bool" where
  "IsStringInSlice needle haystack = (needle \<in> set haystack)"

text \<open>
  Modelled from the spec: \<^verbatim>\<open>utils.IsStringSliceContainsAll(needles, haystack)\<close>, of the same
  package. Its one use decides whether a client uses "an implicit-only flow": whether the
  haystack holds every needle.
\<close>

definition IsStringSliceContainsAll :: "string list \<Rightarrow> string list \<Rightarrow> bool" where
  "IsStringSliceContainsAll needles haystack = list_all (\<lambda>n. IsStringInSlice n haystack) needles"

subsection \<open>Updates of the configuration in place\<close>

definition updClient :: "nat \<Rightarrow> (Client \<Rightarrow> Client) \<Rightarrow> Config \<Rightarrow> Config" where
  "updClient c f config = config\<lparr>Clients := (Clients config)[c := f (Clients config ! c)]\<rparr>"

definition updDisc :: "(Discovery \<Rightarrow> Discovery) \<Rightarrow> Config \<Rightarrow> Config" where
  "updDisc f config = config\<lparr>Disc := f (Disc config)\<rparr>"

section \<open>Algorithm and key ID resolution\<close>

text \<open>
  The two search loops of \<^verbatim>\<open>validateOIDCClientAlgKIDDefault\<close> over
  \<^verbatim>\<open>config.IssuerPrivateKeys\<close>: each returns at the first match, and falls through to the final
  return with both values unchanged when no key matches.
\<close>

fun searchKeyIDByAlg :: "string \<Rightarrow> string \<Rightarrow> JWK list \<Rightarrow> string \<times> string" where
  "searchKeyIDByAlg alg kid [] = (alg, kid)"
| "searchKeyIDByAlg alg kid (jwk # jwks) =
     (if alg = Algorithm jwk then (alg, KeyID jwk) else searchKeyIDByAlg alg kid jwks)"

fun searchAlgByKeyID :: "string \<Rightarrow> string \<Rightarrow> JWK list \<Rightarrow> string \<times> string" where
  "searchAlgByKeyID alg kid [] = (alg, kid)"
| "searchAlgByKeyID alg kid (jwk # jwks) =
     (if kid = KeyID jwk then (Algorithm jwk, kid) else searchAlgByKeyID alg kid jwks)"

definition validateOIDCClientAlgKIDDefault ::
  "Config \<Rightarrow> string \<Rightarrow> string \<Rightarrow> string \<Rightarrow> string \<times> string" where
  "validateOIDCClientAlgKIDDefault config algCurrent kidCurrent algDefault =
     (let alg = algCurrent; kid = kidCurrent;
          balg = (length alg \<noteq> 0); bkid = (length kid \<noteq> 0)
      in if balg \<and> bkid then (alg, kid)
         else if \<not> balg \<and> \<not> bkid \<and> algDefault = [] then (alg, kid)
         else
           let alg = (if \<not> balg \<and> \<not> bkid then algDefault else alg);
               balg = (length alg \<noteq> 0); bkid = (length kid \<noteq> 0)
           in if \<not> balg \<and> \<not> bkid then (alg, kid)
              else if \<not> bkid then searchKeyIDByAlg alg kid (IssuerPrivateKeys config)
              else if \<not> balg then searchAlgByKeyID alg kid (IssuerPrivateKeys config)
              else (alg, kid))"

section \<open>Authorization policies\<close>

text \<open>
  Modelled from the spec: the constants \<^verbatim>\<open>policyOneFactor\<close>, \<^verbatim>\<open>policyTwoFactor\<close> and
  \<^verbatim>\<open>policyDeny\<close> of the validator's constant file, which is outside the embedded file. The
  specification gives the reserved names as \<^verbatim>\<open>one_factor\<close>, \<^verbatim>\<open>two_factor\<close> and \<^verbatim>\<open>deny\<close>.
\<close>

definition policyOneFactor :: string where
  "policyOneFactor = ''one_factor''"

definition policyTwoFactor :: string where
  "policyTwoFactor = ''two_factor''"

definition policyDeny :: string where
  "policyDeny = ''deny''"

text \<open>
  The body of the loop over \<^verbatim>\<open>policy.Rules\<close>, for the rule at index \<open>i\<close>: it returns the rule as
  the iteration leaves it.
\<close>

definition policyRulesIteration ::
  "Externals \<Rightarrow> string \<Rightarrow> nat \<Rightarrow> PolicyRule \<Rightarrow> StructValidator \<Rightarrow> PolicyRule \<times> StructValidator" where
  "policyRulesIteration X name i rule validator =
     (let (rule', validator) =
            (if Policy rule = [] then
               (rule\<lparr>Policy := DefaultPolicyConfigurationDefaultPolicy X\<rparr>, validator)
             else if Policy rule = policyOneFactor \<or> Policy rule = policyTwoFactor
                     \<or> Policy rule = policyDeny then (rule, validator)
             else (rule, Push validator (Errorf ''errFmtOIDCPolicyRuleInvalidPolicy''
                     [Str name, Num (i + 1), StrJoinAnd [policyOneFactor, policyTwoFactor, policyDeny],
                      Str (Policy rule)])))
      in if length (Subjects rule) = 0 then
           (rule', Push validator (Errorf ''errFmtOIDCPolicyRuleMissingOption''
                     [Str name, Num (i + 1), Str ''subject'']))
         else (rule', validator))"

fun policyRulesLoop ::
  "Externals \<Rightarrow> string \<Rightarrow> nat \<Rightarrow> PolicyRule list \<Rightarrow> StructValidator \<Rightarrow> PolicyRule list \<times> StructValidator" where
  "policyRulesLoop X name i [] validator = ([], validator)"
| "policyRulesLoop X name i (rule # rules) validator =
     (let (rule', validator) = policyRulesIteration X name i rule validator;
          (rules', validator) = policyRulesLoop X name (i + 1) rules validator
      in (rule' # rules', validator))"

text \<open>
  The two \<^verbatim>\<open>switch\<close> statements that open the body of the loop over the entries of
  \<^verbatim>\<open>config.AuthorizationPolicies\<close>: on the name, which decides \<^verbatim>\<open>add\<close>, and on the default policy.
\<close>

definition policyNameSwitch :: "string \<Rightarrow> StructValidator \<Rightarrow> bool \<times> StructValidator" where
  "policyNameSwitch name validator =
     (if name = [] then (False, Push validator (Errorf ''errFmtOIDCPolicyInvalidName'' []))
      else if name = policyOneFactor \<or> name = policyTwoFactor \<or> name = policyDeny then
        (False, Push validator (Errorf ''errFmtOIDCPolicyInvalidNameStandard''
           [Str name, Str ''name'', StrJoinAnd [policyOneFactor, policyTwoFactor, policyDeny],
            Str name]))
      else (True, validator))"

definition policyDefaultPolicySwitch ::
  "Externals \<Rightarrow> string \<Rightarrow> AuthorizationPolicy \<Rightarrow> StructValidator
     \<Rightarrow> AuthorizationPolicy \<times> StructValidator" where
  "policyDefaultPolicySwitch X name policy validator =
     (if DefaultPolicy policy = [] then
        (policy\<lparr>DefaultPolicy := DefaultPolicyConfigurationDefaultPolicy X\<rparr>, validator)
      else if DefaultPolicy policy = policyOneFactor \<or> DefaultPolicy policy = policyTwoFactor
              \<or> DefaultPolicy policy = policyDeny then (policy, validator)
      else (policy, Push validator (Errorf ''errFmtOIDCPolicyInvalidDefaultPolicy''
              [Str name, StrJoinAnd [policyOneFactor, policyTwoFactor, policyDeny],
               Str (DefaultPolicy policy)])))"

text \<open>The body of the loop over the entries of \<^verbatim>\<open>config.AuthorizationPolicies\<close>.\<close>

definition authorizationPoliciesIteration ::
  "Externals \<Rightarrow> string \<Rightarrow> AuthorizationPolicy \<Rightarrow> Config \<Rightarrow> StructValidator \<Rightarrow> Config \<times> StructValidator" where
  "authorizationPoliciesIteration X name policy config validator =
     (let (add, validator) = policyNameSwitch name validator;
          (policy, validator) = policyDefaultPolicySwitch X name policy validator;
          validator =
            (if length (Rules policy) = 0 then
               Push validator (Errorf ''errFmtOIDCPolicyMissingOption'' [Str name, Str ''rules''])
             else validator);
          (rules, validator) = policyRulesLoop X name 0 (Rules policy) validator;
          policy = policy\<lparr>Rules := rules\<rparr>;
          config = config\<lparr>AuthorizationPolicies :=
                     AList.update name policy (AuthorizationPolicies config)\<rparr>;
          config =
            (if add then
               updDisc (\<lambda>d. d\<lparr>DiscAuthorizationPolicies := DiscAuthorizationPolicies d @ [name]\<rparr>) config
             else config)
      in (config, validator))"

text \<open>
  The \<^verbatim>\<open>range\<close> over the map: its entries in the order of the visit. An iteration writes only the
  entry it visits, so every entry is visited as it was configured.
\<close>

fun authorizationPoliciesLoop ::
  "Externals \<Rightarrow> (string \<times> AuthorizationPolicy) list \<Rightarrow> Config \<Rightarrow> StructValidator \<Rightarrow> Config \<times> StructValidator" where
  "authorizationPoliciesLoop X [] config validator = (config, validator)"
| "authorizationPoliciesLoop X ((name, policy) # entries) config validator =
     (let (config, validator) = authorizationPoliciesIteration X name policy config validator
      in authorizationPoliciesLoop X entries config validator)"

definition validateOIDCAuthorizationPolicies ::
  "Externals \<Rightarrow> Config \<Rightarrow> StructValidator \<Rightarrow> Config \<times> StructValidator" where
  "validateOIDCAuthorizationPolicies X config validator =
     (let config = updDisc (\<lambda>d. d\<lparr>DiscAuthorizationPolicies := [policyOneFactor, policyTwoFactor]\<rparr>) config
      in authorizationPoliciesLoop X (AuthorizationPolicies config) config validator)"

section \<open>Issuer private keys\<close>

text \<open>
  The functions of the key loop address the key as \<^verbatim>\<open>config.IssuerPrivateKeys[i]\<close>; as for clients,
  \<open>None\<close> is the panic of an index outside its slice, or of a nil pointer.
\<close>

definition updKey :: "nat \<Rightarrow> (JWK \<Rightarrow> JWK) \<Rightarrow> Config \<Rightarrow> Config" where
  "updKey i f config =
     config\<lparr>IssuerPrivateKeys := (IssuerPrivateKeys config)[i := f (IssuerPrivateKeys config ! i)]\<rparr>"

text \<open>
  The three statements of \<^verbatim>\<open>validateOIDCIssuerPrivateKeysUseAlg\<close>, for \<open>i\<close> inside the slice: the
  \<^verbatim>\<open>switch\<close> on the use, the \<^verbatim>\<open>switch\<close> on the algorithm, and the registration of the
  algorithm in the discovery aggregate. In the second \<^verbatim>\<open>switch\<close> the case of the empty
  algorithm falls through into the body of the case of a valid algorithm, without testing it.
\<close>

definition issuerPrivateKeysUseSwitch ::
  "Externals \<Rightarrow> nat \<Rightarrow> JWKProperties \<Rightarrow> Config \<Rightarrow> StructValidator \<Rightarrow> Config \<times> StructValidator" where
  "issuerPrivateKeysUseSwitch X i props config validator =
     (let jwk = IssuerPrivateKeys config ! i
      in if Use jwk = [] then (updKey i (\<lambda>k. k\<lparr>Use := PropsUse props\<rparr>) config, validator)
         else if Use jwk = KeyUseSignature X then (config, validator)
         else (config, Push validator (Errorf ''errFmtOIDCProviderPrivateKeysInvalidOptionOneOf''
                 [Num (i + 1), Str (KeyID jwk), Name ''attrOIDCKeyUse'',
                  StrJoinOr [KeyUseSignature X], Str (Use jwk)])))"

definition issuerPrivateKeysAlgSwitch ::
  "Externals \<Rightarrow> nat \<Rightarrow> JWKProperties \<Rightarrow> Config \<Rightarrow> StructValidator \<Rightarrow> Config \<times> StructValidator" where
  "issuerPrivateKeysAlgSwitch X i props config validator =
     (let jwk = IssuerPrivateKeys config ! i
      in if Algorithm jwk = [] \<or> IsStringInSlice (Algorithm jwk) (validOIDCIssuerJWKSigningAlgs X) then
           let config =
                 (if Algorithm jwk = [] then
                    updKey i (\<lambda>k. k\<lparr>Algorithm := PropsAlgorithm props\<rparr>) config
                  else config);
               jwk = IssuerPrivateKeys config ! i
           in if KeyID jwk \<noteq> [] \<and> Algorithm jwk \<noteq> [] then
                (if DefaultKeyIDs (Disc config) (Algorithm jwk) = None then
                   (updDisc (\<lambda>d. d\<lparr>DefaultKeyIDs := (DefaultKeyIDs d)(Algorithm jwk \<mapsto> KeyID jwk)\<rparr>)
                      config, validator)
                 else (config, validator))
              else (config, validator)
         else (config, Push validator (Errorf ''errFmtOIDCProviderPrivateKeysInvalidOptionOneOf''
                 [Num (i + 1), Str (KeyID jwk), Name ''attrOIDCAlgorithm'',
                  StrJoinOr (validOIDCIssuerJWKSigningAlgs X), Str (Algorithm jwk)])))"

definition issuerPrivateKeysAlgDiscovery :: "nat \<Rightarrow> Config \<Rightarrow> Config" where
  "issuerPrivateKeysAlgDiscovery i config =
     (let alg = Algorithm (IssuerPrivateKeys config ! i)
      in if alg \<noteq> [] then
           (if \<not> IsStringInSlice alg (ResponseObjectSigningAlgs (Disc config)) then
              updDisc (\<lambda>d. d\<lparr>ResponseObjectSigningAlgs := ResponseObjectSigningAlgs d @ [alg]\<rparr>) config
            else config)
         else config)"

definition validateOIDCIssuerPrivateKeysUseAlg ::
  "Externals \<Rightarrow> nat \<Rightarrow> JWKProperties \<Rightarrow> Config \<Rightarrow> StructValidator \<Rightarrow> (Config \<times> StructValidator) option" where
  "validateOIDCIssuerPrivateKeysUseAlg X i props config validator =
     (if i < length (IssuerPrivateKeys config) then
        let (config, validator) = issuerPrivateKeysUseSwitch X i props config validator;
            (config, validator) = issuerPrivateKeysAlgSwitch X i props config validator
        in Some (issuerPrivateKeysAlgDiscovery i config, validator)
      else None)"

text \<open>
  \<^verbatim>\<open>key.Size()\<close> reads the modulus, so an RSA key whose modulus is nil panics here; the loop of
  \<^verbatim>\<open>validateOIDCIssuerPrivateKeys\<close> skips such a key before it calls this function.
\<close>

definition validateOIDCIssuerPrivateKeyPair ::
  "Externals \<Rightarrow> nat \<Rightarrow> Config \<Rightarrow> StructValidator \<Rightarrow> (Config \<times> StructValidator) option" where
  "validateOIDCIssuerPrivateKeyPair X i config validator =
     (if i < length (IssuerPrivateKeys config) then
        let jwk = IssuerPrivateKeys config ! i
        in (case (case Key jwk of
                    RSAPrivateKey None \<Rightarrow> None
                  | RSAPrivateKey (Some n) \<Rightarrow>
                      if Size n < 256 then
                        Some (False, Push validator
                          (Errorf ''errFmtOIDCProviderPrivateKeysRSAKeyLessThan2048Bits''
                             [Num (i + 1), Str (KeyID jwk), Num (Size n * 8)]))
                      else Some (True, validator)
                  | ECDSAPrivateKey \<Rightarrow> Some (True, validator)
                  | _ \<Rightarrow>
                      Some (False, Push validator
                        (Errorf ''errFmtOIDCProviderPrivateKeysKeyNotRSAOrECDSA''
                           [Num (i + 1), Str (KeyID jwk), KeyArg (Key jwk)]))) of
              None \<Rightarrow> None
            | Some (checkEqualKey, validator) \<Rightarrow>
                if HasCertificates X (CertificateChain jwk) then
                  let validator =
                        (if checkEqualKey \<and> \<not> EqualKey X (CertificateChain jwk) (Key jwk) then
                           Push validator (Errorf ''errFmtOIDCProviderPrivateKeysKeyCertificateMismatch''
                             [Num (i + 1), Str (KeyID jwk)])
                         else validator)
                  in (case Validate X (CertificateChain jwk) of
                        Some err \<Rightarrow>
                          Some (config, Push validator
                            (Errorf ''errFmtOIDCProviderPrivateKeysCertificateChainInvalid''
                               [Num (i + 1), Str (KeyID jwk), Str err]))
                      | None \<Rightarrow> Some (config, validator))
                else Some (config, validator))
      else None)"

text \<open>
  One iteration of the loop of \<^verbatim>\<open>validateOIDCIssuerPrivateKeys\<close>, for \<open>i\<close> inside the slice, from
  the duplicate check on; every \<^verbatim>\<open>continue\<close> returns the state as it stands.
\<close>

definition issuerPrivateKeysIterationRest ::
  "Externals \<Rightarrow> nat \<Rightarrow> Config \<Rightarrow> StructValidator \<Rightarrow> (Config \<times> StructValidator) option" where
  "issuerPrivateKeysIterationRest X i config validator =
     (let jwk = IssuerPrivateKeys config ! i;
          validator =
            (if KeyID jwk \<noteq> []
                \<and> IsStringInSlice (KeyID jwk) (ResponseObjectSigningKeyIDs (Disc config)) then
               Push validator (Errorf ''errFmtOIDCProviderPrivateKeysAttributeNotUnique''
                 [Num (i + 1), Str (KeyID jwk), Name ''attrOIDCKeyID''])
             else validator)
      in if i < length (ResponseObjectSigningKeyIDs (Disc config)) then
           let config = updDisc (\<lambda>d. d\<lparr>ResponseObjectSigningKeyIDs :=
                          (ResponseObjectSigningKeyIDs d)[i := KeyID jwk]\<rparr>) config;
               validator =
                 (if \<not> reOpenIDConnectKIDMatchString X (KeyID jwk) then
                    Push validator (Errorf ''errFmtOIDCProviderPrivateKeysKeyIDNotValid''
                      [Num (i + 1), Str (KeyID jwk)])
                  else validator)
           in (case schemaJWKGetProperties X jwk of
                 Inl err \<Rightarrow>
                   Some (config, Push validator (Errorf ''errFmtOIDCProviderPrivateKeysProperties''
                           [Num (i + 1), Str (KeyID jwk), Str err]))
               | Inr props \<Rightarrow>
                   (case validateOIDCIssuerPrivateKeysUseAlg X i props config validator of
                      None \<Rightarrow> None
                    | Some (config, validator) \<Rightarrow> validateOIDCIssuerPrivateKeyPair X i config validator))
         else None)"

definition issuerPrivateKeysIteration ::
  "Externals \<Rightarrow> nat \<Rightarrow> Config \<Rightarrow> StructValidator \<Rightarrow> (Config \<times> StructValidator) option" where
  "issuerPrivateKeysIteration X i config validator =
     (let jwk = IssuerPrivateKeys config ! i
      in if Key jwk = RSAPrivateKey None then
           Some (config, Push validator (Errorf ''errFmtOIDCProviderPrivateKeysInvalid'' [Num (i + 1)]))
         else if length (KeyID jwk) = 0 then
           let (kid, err) = jwkCalculateThumbprint X (Key jwk);
               config = updKey i (\<lambda>k. k\<lparr>KeyID := kid\<rparr>) config
           in (case err of
                 Some e \<Rightarrow>
                   Some (config, Push validator (Errorf ''errFmtOIDCProviderPrivateKeysCalcThumbprint''
                           [Num (i + 1), Str e]))
               | None \<Rightarrow> issuerPrivateKeysIterationRest X i config validator)
         else if length (KeyID jwk) > 100 then
           issuerPrivateKeysIterationRest X i config
             (Push validator (Errorf ''errFmtOIDCProviderPrivateKeysKeyIDLength''
                [Num (i + 1), Str (KeyID jwk)]))
         else issuerPrivateKeysIterationRest X i config validator)"

lemma validateOIDCIssuerPrivateKeysUseAlg_length:
  assumes "validateOIDCIssuerPrivateKeysUseAlg X i props config validator = Some (config', validator')"
  shows "length (IssuerPrivateKeys config') = length (IssuerPrivateKeys config)"
  using assms
  by (auto simp: validateOIDCIssuerPrivateKeysUseAlg_def issuerPrivateKeysUseSwitch_def
      issuerPrivateKeysAlgSwitch_def issuerPrivateKeysAlgDiscovery_def Let_def updKey_def updDisc_def
      split: if_splits)

lemma validateOIDCIssuerPrivateKeyPair_config:
  assumes "validateOIDCIssuerPrivateKeyPair X i config validator = Some (config', validator')"
  shows "config' = config"
  using assms
  by (auto simp: validateOIDCIssuerPrivateKeyPair_def Let_def split: if_splits option.splits)

lemma issuerPrivateKeysIterationRest_length:
  assumes "issuerPrivateKeysIterationRest X i config validator = Some (config', validator')"
  shows "length (IssuerPrivateKeys config') = length (IssuerPrivateKeys config)"
proof (cases "schemaJWKGetProperties X (IssuerPrivateKeys config ! i)")
  case (Inl err)
  with assms show ?thesis
    by (auto simp: issuerPrivateKeysIterationRest_def Let_def updDisc_def split: if_splits)
next
  case (Inr props)
  with assms obtain config1 validator1 config2 validator2 where
    u: "validateOIDCIssuerPrivateKeysUseAlg X i props config1 validator1 = Some (config2, validator2)"
    and p: "validateOIDCIssuerPrivateKeyPair X i config2 validator2 = Some (config', validator')"
    and c: "IssuerPrivateKeys config1 = IssuerPrivateKeys config"
    by (auto simp: issuerPrivateKeysIterationRest_def Let_def updDisc_def
        split: if_splits option.splits)
  from validateOIDCIssuerPrivateKeysUseAlg_length [OF u] validateOIDCIssuerPrivateKeyPair_config [OF p] c
  show ?thesis by simp
qed

lemma issuerPrivateKeysIteration_length:
  assumes "issuerPrivateKeysIteration X i config validator = Some (config', validator')"
  shows "length (IssuerPrivateKeys config') = length (IssuerPrivateKeys config)"
  using assms issuerPrivateKeysIterationRest_length
  by (fastforce simp: issuerPrivateKeysIteration_def Let_def updKey_def
      split: if_splits option.splits prod.splits)

function issuerPrivateKeysLoop ::
  "Externals \<Rightarrow> nat \<Rightarrow> Config \<Rightarrow> StructValidator \<Rightarrow> (Config \<times> StructValidator) option" where
  "issuerPrivateKeysLoop X i config validator =
     (if i < length (IssuerPrivateKeys config) then
        (case issuerPrivateKeysIteration X i config validator of
           None \<Rightarrow> None
         | Some (config', validator') \<Rightarrow> issuerPrivateKeysLoop X (i + 1) config' validator')
      else Some (config, validator))"
  by pat_completeness auto
termination
proof (relation "measure (\<lambda>(X, i, config, validator). length (IssuerPrivateKeys config) - i)")
  show "wf (measure (\<lambda>(X, i, config, validator). length (IssuerPrivateKeys config) - i))"
    by simp
next
  fix X i config validator x2 x y
  assume "i < length (IssuerPrivateKeys config)"
    and "issuerPrivateKeysIteration X i config validator = Some x2"
    and "(x, y) = x2"
  then show "((X, i + 1, x, y), (X, i, config, validator))
               \<in> measure (\<lambda>(X, i, config, validator). length (IssuerPrivateKeys config) - i)"
    using issuerPrivateKeysIteration_length [of X i config validator x y] by auto
qed

definition validateOIDCIssuerPrivateKeys ::
  "Externals \<Rightarrow> Config \<Rightarrow> StructValidator \<Rightarrow> (Config \<times> StructValidator) option" where
  "validateOIDCIssuerPrivateKeys X config validator =
     (let config = updDisc (\<lambda>d. d\<lparr>ResponseObjectSigningKeyIDs :=
                               replicate (length (IssuerPrivateKeys config)) [],
                             DefaultKeyIDs := Map.empty\<rparr>) config
      in case issuerPrivateKeysLoop X 0 config validator of
           None \<Rightarrow> None
         | Some (config, validator) \<Rightarrow>
             if length (ResponseObjectSigningAlgs (Disc config)) \<noteq> 0
                \<and> \<not> IsStringInSlice (SigningAlgRSAUsingSHA256 X) (ResponseObjectSigningAlgs (Disc config)) then
               Some (config, Push validator (Errorf ''errFmtOIDCProviderPrivateKeysNoRS256''
                       [Str (SigningAlgRSAUsingSHA256 X),
                        StrJoinAnd (ResponseObjectSigningAlgs (Disc config))]))
             else Some (config, validator))"

section \<open>Client validation\<close>

text \<open>
  The per-client functions address the client as \<^verbatim>\<open>config.Clients[c]\<close>. An index outside the
  slice makes the Go runtime panic: the result is \<open>None\<close> then, and \<open>Some\<close> of the updated
  configuration and validator otherwise.
\<close>

subsection \<open>Consent mode\<close>

definition validateOIDCClientConsentMode ::
  "Externals \<Rightarrow> nat \<Rightarrow> Config \<Rightarrow> StructValidator \<Rightarrow> (Config \<times> StructValidator) option" where
  "validateOIDCClientConsentMode X c config validator =
     (if c < length (Clients config) then
        let client = Clients config ! c;
            (config, validator) =
              (if IsStringInSlice (ConsentMode client) [[], auto X] then
                 (if ConsentPreConfiguredDuration client \<noteq> None
                  then (updClient c (\<lambda>cl. cl\<lparr>ConsentMode := ClientConsentModePreConfigured X\<rparr>) config, validator)
                  else (updClient c (\<lambda>cl. cl\<lparr>ConsentMode := ClientConsentModeExplicit X\<rparr>) config, validator))
               else if IsStringInSlice (ConsentMode client) (validOIDCClientConsentModes X) then
                 (config, validator)
               else
                 (config, Push validator (Errorf ''errFmtOIDCClientInvalidConsentMode''
                    [Str (ID client), StrJoinOr (validOIDCClientConsentModes X @ [auto X]),
                     Str (ConsentMode client)])));
            client = Clients config ! c
        in if ConsentMode client = ClientConsentModePreConfigured X
              \<and> ConsentPreConfiguredDuration client = None
           then Some (updClient c (\<lambda>cl. cl\<lparr>ConsentPreConfiguredDuration :=
                        DefaultConsentPreConfiguredDuration X\<rparr>) config, validator)
           else Some (config, validator)
      else None)"

subsection \<open>Token endpoint authentication\<close>

definition validateOIDCClientTokenEndpointAuthClientSecretJWT ::
  "Externals \<Rightarrow> nat \<Rightarrow> Config \<Rightarrow> StructValidator \<Rightarrow> (Config \<times> StructValidator) option" where
  "validateOIDCClientTokenEndpointAuthClientSecretJWT X c config validator =
     (if c < length (Clients config) then
        let client = Clients config ! c
        in if TokenEndpointAuthSigningAlg client = [] then
             Some (updClient c (\<lambda>cl. cl\<lparr>TokenEndpointAuthSigningAlg := SigningAlgHMACUsingSHA256 X\<rparr>) config,
                   validator)
           else if \<not> IsStringInSlice (TokenEndpointAuthSigningAlg client)
                       (validOIDCClientTokenEndpointAuthSigAlgsClientSecretJWT X) then
             Some (config, Push validator (Errorf ''errFmtOIDCClientInvalidTokenEndpointAuthSigAlg''
                     [Str (ID client), StrJoinOr (validOIDCClientTokenEndpointAuthSigAlgsClientSecretJWT X),
                      Str (TokenEndpointAuthMethod client)]))
           else Some (config, validator)
      else None)"

text \<open>This one takes the client by value and only reports.\<close>

definition validateOIDCClientTokenEndpointAuthPublicKeyJWT ::
  "Externals \<Rightarrow> Client \<Rightarrow> StructValidator \<Rightarrow> StructValidator" where
  "validateOIDCClientTokenEndpointAuthPublicKeyJWT X config validator =
     (let validator =
            (if TokenEndpointAuthSigningAlg config = [] then
               Push validator (Errorf ''errFmtOIDCClientInvalidTokenEndpointAuthSigAlgMissingPrivateKeyJWT''
                 [Str (ID config)])
             else if \<not> IsStringInSlice (TokenEndpointAuthSigningAlg config) (validOIDCIssuerJWKSigningAlgs X) then
               Push validator (Errorf ''errFmtOIDCClientInvalidTokenEndpointAuthSigAlg''
                 [Str (ID config), StrJoinOr (validOIDCIssuerJWKSigningAlgs X),
                  Str (TokenEndpointAuthMethod config)])
             else validator)
      in if URI (PublicKeys config) = None then
           (if length (Values (PublicKeys config)) = 0 then
              Push validator (Errorf ''errFmtOIDCClientInvalidPublicKeysPrivateKeyJWT'' [Str (ID config)])
            else if length (ClientRequestObjectSigningAlgs (CDiscovery config)) \<noteq> 0
                    \<and> \<not> IsStringInSlice (TokenEndpointAuthSigningAlg config)
                          (ClientRequestObjectSigningAlgs (CDiscovery config)) then
              Push validator (Errorf ''errFmtOIDCClientInvalidTokenEndpointAuthSigAlgReg''
                [Str (ID config), StrJoinOr (ClientRequestObjectSigningAlgs (CDiscovery config)),
                 Str (TokenEndpointAuthMethod config)])
            else validator)
         else validator)"

text \<open>
  The second \<^verbatim>\<open>switch\<close> of \<^verbatim>\<open>validateOIDCClientTokenEndpointAuth\<close>: it dispatches on the method and
  yields the \<^verbatim>\<open>secret\<close> flag.
\<close>

definition tokenEndpointAuthMethodSwitch ::
  "Externals \<Rightarrow> nat \<Rightarrow> Config \<Rightarrow> StructValidator \<Rightarrow> (Config \<times> StructValidator \<times> bool) option" where
  "tokenEndpointAuthMethodSwitch X c config validator =
     (let client = Clients config ! c; method = TokenEndpointAuthMethod client
      in if method = ClientAuthMethodClientSecretJWT X then
           (case validateOIDCClientTokenEndpointAuthClientSecretJWT X c config validator of
              None \<Rightarrow> None
            | Some (config, validator) \<Rightarrow> Some (config, validator, True))
         else if method = [] then Some (config, validator, \<not> Public client)
         else if method = ClientAuthMethodClientSecretPost X \<or> method = ClientAuthMethodClientSecretBasic X then
           Some (config, validator, True)
         else if method = ClientAuthMethodPrivateKeyJWT X then
           Some (config, validateOIDCClientTokenEndpointAuthPublicKeyJWT X client validator, False)
         else Some (config, validator, False))"

text \<open>The closing secret checks of \<^verbatim>\<open>validateOIDCClientTokenEndpointAuth\<close>.\<close>

definition tokenEndpointAuthSecretChecks ::
  "Externals \<Rightarrow> Client \<Rightarrow> bool \<Rightarrow> StructValidator \<Rightarrow> StructValidator" where
  "tokenEndpointAuthSecretChecks X client secret validator =
     (if secret then
        (if Public client then validator
         else
           (case Secret client of
              None \<Rightarrow> Push validator (Errorf ''errFmtOIDCClientInvalidSecret'' [Str (ID client)])
            | Some digest \<Rightarrow>
                if IsPlainText digest
                   \<and> TokenEndpointAuthMethod client \<noteq> ClientAuthMethodClientSecretJWT X then
                  PushWarning validator (Errorf ''errFmtOIDCClientInvalidSecretPlainText'' [Str (ID client)])
                else if \<not> IsPlainText digest
                        \<and> TokenEndpointAuthMethod client = ClientAuthMethodClientSecretJWT X then
                  Push validator (Errorf ''errFmtOIDCClientInvalidSecretNotPlainText'' [Str (ID client)])
                else validator))
      else if Secret client \<noteq> None then
        (if Public client then
           Push validator (Errorf ''errFmtOIDCClientPublicInvalidSecret'' [Str (ID client)])
         else
           Push validator (Errorf ''errFmtOIDCClientPublicInvalidSecretClientAuthMethod''
             [Str (ID client), Str (TokenEndpointAuthMethod client)]))
      else validator)"

definition validateOIDCClientTokenEndpointAuth ::
  "Externals \<Rightarrow> nat \<Rightarrow> Config \<Rightarrow> StructValidator \<Rightarrow> (Config \<times> StructValidator) option" where
  "validateOIDCClientTokenEndpointAuth X c config validator =
     (if c < length (Clients config) then
        let client = Clients config ! c;
            implicit = (length (ResponseTypes client) \<noteq> 0
                        \<and> IsStringSliceContainsAll (ResponseTypes client)
                              (validOIDCClientResponseTypesImplicitFlow X))
        in if TokenEndpointAuthMethod client \<noteq> []
              \<and> \<not> IsStringInSlice (TokenEndpointAuthMethod client)
                    (validOIDCClientTokenEndpointAuthMethods X) then
             Some (config, Push validator (Errorf ''errFmtOIDCClientInvalidValue''
                     [Str (ID client), Name ''attrOIDCTokenAuthMethod'',
                      StrJoinOr (validOIDCClientTokenEndpointAuthMethods X),
                      Str (TokenEndpointAuthMethod client)]))
           else
             let validator =
                   (if TokenEndpointAuthMethod client = [] then validator
                    else if TokenEndpointAuthMethod client = ClientAuthMethodNone X
                            \<and> \<not> Public client \<and> \<not> implicit then
                      Push validator (Errorf ''errFmtOIDCClientInvalidTokenEndpointAuthMethod''
                        [Str (ID client), StrJoinOr (validOIDCClientTokenEndpointAuthMethodsConfidential X),
                         StrJoinAnd (validOIDCClientResponseTypesImplicitFlow X),
                         Str (TokenEndpointAuthMethod client)])
                    else if TokenEndpointAuthMethod client \<noteq> ClientAuthMethodNone X \<and> Public client then
                      Push validator (Errorf ''errFmtOIDCClientInvalidTokenEndpointAuthMethodPublic''
                        [Str (ID client), Str (TokenEndpointAuthMethod client)])
                    else validator)
             in (case tokenEndpointAuthMethodSwitch X c config validator of
                   None \<Rightarrow> None
                 | Some (config, validator, secret) \<Rightarrow>
                     Some (config, tokenEndpointAuthSecretChecks X (Clients config ! c) secret validator))
      else None)"

subsection \<open>Client public keys\<close>










subsection \<open>Signing algorithm and key ID of each response type\<close>

text \<open>
  Modelled from the spec: \<^verbatim>\<open>getResponseObjectAlgFromKID(config, kid, alg)\<close>, which the five functions
  below call and whose text is outside the embedded file. The specification says of it that
  "on success the algorithm is overwritten with that key's actual algorithm (key ID is
  authoritative)": the algorithm of the issuer key with the key ID, and the algorithm passed in
  when no issuer key has it.
\<close>

fun responseObjectAlgSearch :: "string \<Rightarrow> string \<Rightarrow> JWK list \<Rightarrow> string" where
  "responseObjectAlgSearch kid alg [] = alg"
| "responseObjectAlgSearch kid alg (jwk # jwks) =
     (if kid = KeyID jwk then Algorithm jwk else responseObjectAlgSearch kid alg jwks)"

definition getResponseObjectAlgFromKID :: "Config \<Rightarrow> string \<Rightarrow> string \<Rightarrow> string" where
  "getResponseObjectAlgFromKID config kid alg = responseObjectAlgSearch kid alg (IssuerPrivateKeys config)"

definition validateOIDDClientSigningAlgsIDToken ::
  "Externals \<Rightarrow> nat \<Rightarrow> Config \<Rightarrow> StructValidator \<Rightarrow> (Config \<times> StructValidator) option" where
  "validateOIDDClientSigningAlgsIDToken X c config validator =
     (if c < length (Clients config) then
        let (alg, kid) = validateOIDCClientAlgKIDDefault config
                           (IDTokenSignedResponseAlg (Clients config ! c))
                           (IDTokenSignedResponseKeyID (Clients config ! c))
                           (DefaultIDTokenSignedResponseAlg X);
            config = updClient c (\<lambda>cl. cl\<lparr>IDTokenSignedResponseAlg := alg,
                                            IDTokenSignedResponseKeyID := kid\<rparr>) config;
            client = Clients config ! c
        in if IDTokenSignedResponseKeyID client = [] then
             (if IDTokenSignedResponseAlg client = [] \<or> IDTokenSignedResponseAlg client = SigningAlgRSAUsingSHA256 X then
                Some (config, validator)
              else if \<not> IsStringInSlice (IDTokenSignedResponseAlg client)
                          (ResponseObjectSigningAlgs (Disc config)) then
                Some (config, Push validator (Errorf ''errFmtOIDCClientInvalidValue''
                        [Str (ID client), Name ''attrOIDCIDTokenSigAlg'',
                         StrJoinOr (ResponseObjectSigningAlgs (Disc config)),
                         Str (IDTokenSignedResponseAlg client)]))
              else Some (config, validator))
           else if \<not> IsStringInSlice (IDTokenSignedResponseKeyID client)
                       (ResponseObjectSigningKeyIDs (Disc config)) then
             Some (config, Push validator (Errorf ''errFmtOIDCClientInvalidValue''
                     [Str (ID client), Name ''attrOIDCIDTokenSigKID'',
                      StrJoinOr (ResponseObjectSigningKeyIDs (Disc config)),
                      Str (IDTokenSignedResponseKeyID client)]))
           else
             Some (updClient c (\<lambda>cl. cl\<lparr>IDTokenSignedResponseAlg :=
                     getResponseObjectAlgFromKID config (IDTokenSignedResponseKeyID client) (IDTokenSignedResponseAlg client)\<rparr>) config, validator)
      else None)"

definition validateOIDDClientSigningAlgsAccessToken ::
  "Externals \<Rightarrow> nat \<Rightarrow> Config \<Rightarrow> StructValidator \<Rightarrow> (Config \<times> StructValidator) option" where
  "validateOIDDClientSigningAlgsAccessToken X c config validator =
     (if c < length (Clients config) then
        let (alg, kid) = validateOIDCClientAlgKIDDefault config
                           (AccessTokenSignedResponseAlg (Clients config ! c))
                           (AccessTokenSignedResponseKeyID (Clients config ! c))
                           (DefaultAccessTokenSignedResponseAlg X);
            config = updClient c (\<lambda>cl. cl\<lparr>AccessTokenSignedResponseAlg := alg,
                                            AccessTokenSignedResponseKeyID := kid\<rparr>) config;
            client = Clients config ! c
        in if AccessTokenSignedResponseKeyID client = [] then
             (if AccessTokenSignedResponseAlg client = [] \<or> AccessTokenSignedResponseAlg client = SigningAlgNone X
                \<or> AccessTokenSignedResponseAlg client = SigningAlgRSAUsingSHA256 X then
                Some (config, validator)
              else if \<not> IsStringInSlice (AccessTokenSignedResponseAlg client)
                          (ResponseObjectSigningAlgs (Disc config)) then
                Some (config, Push validator (Errorf ''errFmtOIDCClientInvalidValue''
                        [Str (ID client), Name ''attrOIDCAccessTokenSigAlg'',
                         StrJoinOr (ResponseObjectSigningAlgs (Disc config)),
                         Str (AccessTokenSignedResponseAlg client)]))
              else Some (updDisc (\<lambda>d. d\<lparr>JWTResponseAccessTokens := True\<rparr>) config, validator))
           else if \<not> IsStringInSlice (AccessTokenSignedResponseKeyID client)
                       (ResponseObjectSigningKeyIDs (Disc config)) then
             Some (config, Push validator (Errorf ''errFmtOIDCClientInvalidValue''
                     [Str (ID client), Name ''attrOIDCAccessTokenSigKID'',
                      StrJoinOr (ResponseObjectSigningKeyIDs (Disc config)),
                      Str (AccessTokenSignedResponseKeyID client)]))
           else
             Some (updDisc (\<lambda>d. d\<lparr>JWTResponseAccessTokens := True\<rparr>)
                     (updClient c (\<lambda>cl. cl\<lparr>AccessTokenSignedResponseAlg :=
                        getResponseObjectAlgFromKID config (AccessTokenSignedResponseKeyID client) (AccessTokenSignedResponseAlg client)\<rparr>) config), validator)
      else None)"

definition validateOIDDClientSigningAlgsUserInfo ::
  "Externals \<Rightarrow> nat \<Rightarrow> Config \<Rightarrow> StructValidator \<Rightarrow> (Config \<times> StructValidator) option" where
  "validateOIDDClientSigningAlgsUserInfo X c config validator =
     (if c < length (Clients config) then
        let (alg, kid) = validateOIDCClientAlgKIDDefault config
                           (UserinfoSignedResponseAlg (Clients config ! c))
                           (UserinfoSignedResponseKeyID (Clients config ! c))
                           (DefaultUserinfoSignedResponseAlg X);
            config = updClient c (\<lambda>cl. cl\<lparr>UserinfoSignedResponseAlg := alg,
                                            UserinfoSignedResponseKeyID := kid\<rparr>) config;
            client = Clients config ! c
        in if UserinfoSignedResponseKeyID client = [] then
             (if UserinfoSignedResponseAlg client = [] \<or> UserinfoSignedResponseAlg client = SigningAlgNone X
                \<or> UserinfoSignedResponseAlg client = SigningAlgRSAUsingSHA256 X then
                Some (config, validator)
              else if \<not> IsStringInSlice (UserinfoSignedResponseAlg client)
                          (ResponseObjectSigningAlgs (Disc config)) then
                Some (config, Push validator (Errorf ''errFmtOIDCClientInvalidValue''
                        [Str (ID client), Name ''attrOIDCUsrSigAlg'',
                         StrJoinOr (ResponseObjectSigningAlgs (Disc config) @ [SigningAlgNone X]),
                         Str (UserinfoSignedResponseAlg client)]))
              else Some (config, validator))
           else if \<not> IsStringInSlice (UserinfoSignedResponseKeyID client)
                       (ResponseObjectSigningKeyIDs (Disc config)) then
             Some (config, Push validator (Errorf ''errFmtOIDCClientInvalidValue''
                     [Str (ID client), Name ''attrOIDCUsrSigKID'',
                      StrJoinOr (ResponseObjectSigningKeyIDs (Disc config)),
                      Str (UserinfoSignedResponseKeyID client)]))
           else
             Some (updClient c (\<lambda>cl. cl\<lparr>UserinfoSignedResponseAlg :=
                     getResponseObjectAlgFromKID config (UserinfoSignedResponseKeyID client) (UserinfoSignedResponseAlg client)\<rparr>) config, validator)
      else None)"

definition validateOIDDClientSigningAlgsIntrospection ::
  "Externals \<Rightarrow> nat \<Rightarrow> Config \<Rightarrow> StructValidator \<Rightarrow> (Config \<times> StructValidator) option" where
  "validateOIDDClientSigningAlgsIntrospection X c config validator =
     (if c < length (Clients config) then
        let (alg, kid) = validateOIDCClientAlgKIDDefault config
                           (IntrospectionSignedResponseAlg (Clients config ! c))
                           (IntrospectionSignedResponseKeyID (Clients config ! c))
                           (DefaultIntrospectionSignedResponseAlg X);
            config = updClient c (\<lambda>cl. cl\<lparr>IntrospectionSignedResponseAlg := alg,
                                            IntrospectionSignedResponseKeyID := kid\<rparr>) config;
            client = Clients config ! c
        in if IntrospectionSignedResponseKeyID client = [] then
             (if IntrospectionSignedResponseAlg client = [] \<or> IntrospectionSignedResponseAlg client = SigningAlgNone X
                \<or> IntrospectionSignedResponseAlg client = SigningAlgRSAUsingSHA256 X then
                Some (config, validator)
              else if \<not> IsStringInSlice (IntrospectionSignedResponseAlg client)
                          (ResponseObjectSigningAlgs (Disc config)) then
                Some (config, Push validator (Errorf ''errFmtOIDCClientInvalidValue''
                        [Str (ID client), Name ''attrOIDCIntrospectionSigAlg'',
                         StrJoinOr (ResponseObjectSigningAlgs (Disc config) @ [SigningAlgNone X]),
                         Str (IntrospectionSignedResponseAlg client)]))
              else Some (config, validator))
           else if \<not> IsStringInSlice (IntrospectionSignedResponseKeyID client)
                       (ResponseObjectSigningKeyIDs (Disc config)) then
             Some (config, Push validator (Errorf ''errFmtOIDCClientInvalidValue''
                     [Str (ID client), Name ''attrOIDCIntrospectionSigKID'',
                      StrJoinOr (ResponseObjectSigningKeyIDs (Disc config)),
                      Str (IntrospectionSignedResponseKeyID client)]))
           else
             Some (updClient c (\<lambda>cl. cl\<lparr>IntrospectionSignedResponseAlg :=
                     getResponseObjectAlgFromKID config (IntrospectionSignedResponseKeyID client) (IntrospectionSignedResponseAlg client)\<rparr>) config, validator)
      else None)"

definition validateOIDDClientSigningAlgsJARM ::
  "Externals \<Rightarrow> nat \<Rightarrow> Config \<Rightarrow> StructValidator \<Rightarrow> (Config \<times> StructValidator) option" where
  "validateOIDDClientSigningAlgsJARM X c config validator =
     (if c < length (Clients config) then
        let (alg, kid) = validateOIDCClientAlgKIDDefault config
                           (AuthorizationSignedResponseAlg (Clients config ! c))
                           (AuthorizationSignedResponseKeyID (Clients config ! c))
                           (DefaultAuthorizationSignedResponseAlg X);
            config = updClient c (\<lambda>cl. cl\<lparr>AuthorizationSignedResponseAlg := alg,
                                            AuthorizationSignedResponseKeyID := kid\<rparr>) config;
            client = Clients config ! c
        in if AuthorizationSignedResponseKeyID client = [] then
             (if AuthorizationSignedResponseAlg client = [] \<or> AuthorizationSignedResponseAlg client = SigningAlgNone X
                \<or> AuthorizationSignedResponseAlg client = SigningAlgRSAUsingSHA256 X then
                Some (config, validator)
              else if \<not> IsStringInSlice (AuthorizationSignedResponseAlg client)
                          (ResponseObjectSigningAlgs (Disc config)) then
                Some (config, Push validator (Errorf ''errFmtOIDCClientInvalidValue''
                        [Str (ID client), Name ''attrOIDCAuthorizationSigAlg'',
                         StrJoinOr (ResponseObjectSigningAlgs (Disc config)),
                         Str (AuthorizationSignedResponseAlg client)]))
              else Some (config, validator))
           else if \<not> IsStringInSlice (AuthorizationSignedResponseKeyID client)
                       (ResponseObjectSigningKeyIDs (Disc config)) then
             Some (config, Push validator (Errorf ''errFmtOIDCClientInvalidValue''
                     [Str (ID client), Name ''attrOIDCAuthorizationSigKID'',
                      StrJoinOr (ResponseObjectSigningKeyIDs (Disc config)),
                      Str (AuthorizationSignedResponseKeyID client)]))
           else
             Some (updClient c (\<lambda>cl. cl\<lparr>AuthorizationSignedResponseAlg :=
                     getResponseObjectAlgFromKID config (AuthorizationSignedResponseKeyID client) (AuthorizationSignedResponseAlg client)\<rparr>) config, validator)
      else None)"

section \<open>Concrete configurations\<close>

text \<open>
  Values for the outside declarations and small configurations on which the theorems below are
  instantiated. The strings are those of JSON Web Algorithms and of OAuth 2.0 client
  authentication; the helpers derive the properties from the key type alone.
\<close>

definition exampleExternals :: Externals where
  "exampleExternals =
     \<lparr>SigningAlgRSAUsingSHA256 = ''RS256'',
      SigningAlgNone = ''none'',
      SigningAlgHMACUsingSHA256 = ''HS256'',
      KeyUseSignature = ''sig'',
      schemeHTTPS = ''https'',
      auto = ''auto'',
      ClientConsentModePreConfigured = ''pre-configured'',
      ClientConsentModeExplicit = ''explicit'',
      ClientAuthMethodNone = ''none'',
      ClientAuthMethodClientSecretJWT = ''client_secret_jwt'',
      ClientAuthMethodClientSecretPost = ''client_secret_post'',
      ClientAuthMethodClientSecretBasic = ''client_secret_basic'',
      ClientAuthMethodPrivateKeyJWT = ''private_key_jwt'',
      validOIDCIssuerJWKSigningAlgs = [''RS256'', ''ES256''],
      validOIDCClientConsentModes = [''implicit'', ''explicit'', ''pre-configured''],
      validOIDCClientResponseTypesImplicitFlow = [''id_token'', ''token'', ''id_token token''],
      validOIDCClientTokenEndpointAuthMethods =
        [''none'', ''client_secret_post'', ''client_secret_basic'', ''private_key_jwt'',
         ''client_secret_jwt''],
      validOIDCClientTokenEndpointAuthMethodsConfidential =
        [''client_secret_post'', ''client_secret_basic'', ''private_key_jwt''],
      validOIDCClientTokenEndpointAuthSigAlgsClientSecretJWT = [''HS256'', ''HS384'', ''HS512''],
      DefaultPolicyConfigurationDefaultPolicy = ''two_factor'',
      DefaultConsentPreConfiguredDuration = Some 604800,
      DefaultAuthorizationSignedResponseAlg = ''none'',
      DefaultIDTokenSignedResponseAlg = ''RS256'',
      DefaultAccessTokenSignedResponseAlg = ''none'',
      DefaultUserinfoSignedResponseAlg = ''none'',
      DefaultIntrospectionSignedResponseAlg = ''none'',
      jwkCalculateThumbprint = (\<lambda>key. (''thumb1'', None)),
      schemaJWKGetProperties =
        (\<lambda>jwk. case Key jwk of
                 RSAPrivateKey N \<Rightarrow> Inr \<lparr>PropsUse = ''sig'', PropsAlgorithm = ''RS256''\<rparr>
               | RSAPublicKey N \<Rightarrow> Inr \<lparr>PropsUse = ''sig'', PropsAlgorithm = ''RS256''\<rparr>
               | ECDSAPrivateKey \<Rightarrow> Inr \<lparr>PropsUse = ''sig'', PropsAlgorithm = ''ES256''\<rparr>
               | ECDSAPublicKey \<Rightarrow> Inr \<lparr>PropsUse = ''sig'', PropsAlgorithm = ''ES256''\<rparr>
               | _ \<Rightarrow> Inl ''unknown key type''),
      reOpenIDConnectKIDMatchString = (\<lambda>kid. kid \<noteq> [] \<and> length kid \<le> 100),
      HasCertificates = (\<lambda>chain. certs chain \<noteq> []),
      EqualKey = (\<lambda>chain key. True),
      Validate = (\<lambda>chain. None)\<rparr>"

definition emptyValidator :: StructValidator where
  "emptyValidator = \<lparr>errors = [], warnings = []\<rparr>"

definition emptyDiscovery :: Discovery where
  "emptyDiscovery =
     \<lparr>DiscAuthorizationPolicies = [], DefaultKeyIDs = Map.empty, ResponseObjectSigningKeyIDs = [],
      ResponseObjectSigningAlgs = [], RequestObjectSigningAlgs = [], JWTResponseAccessTokens = False\<rparr>"

definition exampleClient :: Client where
  "exampleClient =
     \<lparr>ID = ''app'', Secret = None, Public = False, ResponseTypes = [],
      ConsentMode = [], ConsentPreConfiguredDuration = None,
      TokenEndpointAuthMethod = [], TokenEndpointAuthSigningAlg = [],
      RequestObjectSigningAlg = [],
      AuthorizationSignedResponseAlg = [], AuthorizationSignedResponseKeyID = [],
      IDTokenSignedResponseAlg = [], IDTokenSignedResponseKeyID = [],
      AccessTokenSignedResponseAlg = [], AccessTokenSignedResponseKeyID = [],
      UserinfoSignedResponseAlg = [], UserinfoSignedResponseKeyID = [],
      IntrospectionSignedResponseAlg = [], IntrospectionSignedResponseKeyID = [],
      PublicKeys = \<lparr>URI = None, Values = []\<rparr>,
      CDiscovery = \<lparr>ClientRequestObjectSigningAlgs = []\<rparr>\<rparr>"

definition configOf :: "Client \<Rightarrow> Config" where
  "configOf client =
     \<lparr>IssuerPrivateKeys = [], AuthorizationPolicies = [], Clients = [client], Disc = emptyDiscovery\<rparr>"


definition exampleKeyES256 :: JWK where
  "exampleKeyES256 =
     \<lparr>KeyID = ''k1'', Use = ''sig'', Algorithm = ''ES256'', Key = ECDSAPrivateKey,
      CertificateChain = X509CertificateChain []\<rparr>"

text \<open>A provider with one ES256 issuer key, already in the discovery aggregate, and one client.\<close>

definition providerOf :: "Client \<Rightarrow> Config" where
  "providerOf client =
     \<lparr>IssuerPrivateKeys = [exampleKeyES256], AuthorizationPolicies = [], Clients = [client],
      Disc = emptyDiscovery\<lparr>ResponseObjectSigningKeyIDs := [''k1''],
                            ResponseObjectSigningAlgs := [''ES256'']\<rparr>\<rparr>"

definition selectionsClient :: Client where
  "selectionsClient =
     exampleClient\<lparr>IDTokenSignedResponseKeyID := ''k9'', AuthorizationSignedResponseKeyID := ''k1'',
                   UserinfoSignedResponseAlg := ''PS256''\<rparr>"

definition examplePolicy :: AuthorizationPolicy where
  "examplePolicy =
     \<lparr>DefaultPolicy = ''two_factor'',
      Rules = [\<lparr>Policy = ''one_factor'', Subjects = [[''group:admins'']]\<rparr>]\<rparr>"

definition policiesConfig :: Config where
  "policiesConfig =
     \<lparr>IssuerPrivateKeys = [],
      AuthorizationPolicies = [(''deny'', examplePolicy), (''staff'', examplePolicy)],
      Clients = [], Disc = emptyDiscovery\<rparr>"

text \<open>RSA moduli of 1024, 2041 and 2048 bits.\<close>

definition modulus1024 :: nat where
  "modulus1024 = 2 ^ 1023"

definition modulus2041 :: nat where
  "modulus2041 = 2 ^ 2040"

definition modulus2048 :: nat where
  "modulus2048 = 2 ^ 2047"

definition rsaKeyOf :: "nat \<Rightarrow> JWK" where
  "rsaKeyOf n =
     \<lparr>KeyID = ''rsa1'', Use = ''sig'', Algorithm = ''RS256'', Key = RSAPrivateKey (Some n),
      CertificateChain = X509CertificateChain []\<rparr>"

definition keysConfig :: "JWK list \<Rightarrow> Config" where
  "keysConfig keys =
     \<lparr>IssuerPrivateKeys = keys, AuthorizationPolicies = [], Clients = [], Disc = emptyDiscovery\<rparr>"

definition exampleKeyRS256 :: JWK where
  "exampleKeyRS256 =
     \<lparr>KeyID = [], Use = [], Algorithm = [], Key = RSAPrivateKey (Some modulus2048),
      CertificateChain = X509CertificateChain []\<rparr>"

section \<open>The claims in the words of the specification\<close>

text \<open>
  The resolution as the specification words it: by cases on which of the two values is given,
  with \<open>find\<close> for "the first issuer key, in declaration order, that matches".
\<close>

definition firstKeyIDWithAlg :: "JWK list \<Rightarrow> string \<Rightarrow> string" where
  "firstKeyIDWithAlg keys alg =
     (case find (\<lambda>jwk. Algorithm jwk = alg) keys of None \<Rightarrow> [] | Some jwk \<Rightarrow> KeyID jwk)"

definition firstAlgWithKeyID :: "JWK list \<Rightarrow> string \<Rightarrow> string" where
  "firstAlgWithKeyID keys kid =
     (case find (\<lambda>jwk. KeyID jwk = kid) keys of None \<Rightarrow> [] | Some jwk \<Rightarrow> Algorithm jwk)"

definition resolutionSpec :: "JWK list \<Rightarrow> string \<Rightarrow> string \<Rightarrow> string \<Rightarrow> string \<times> string" where
  "resolutionSpec keys alg kid algDefault =
     (if alg \<noteq> [] \<and> kid \<noteq> [] then (alg, kid)
      else if alg = [] \<and> kid = [] then
        (algDefault, if algDefault = [] then [] else firstKeyIDWithAlg keys algDefault)
      else if kid = [] then (alg, firstKeyIDWithAlg keys alg)
      else (firstAlgWithKeyID keys kid, kid))"

text \<open>
  What the specification says of a signing selection after its resolution to \<open>alg\<close> and \<open>kid\<close>,
  for the validator before and after and the algorithm the client is left with: with a key ID,
  the key ID error is recorded exactly when the key ID is not in the discovery key IDs, and
  otherwise the algorithm becomes that of the issuer key with the key ID; with no key ID and an
  algorithm that is not implicitly valid, the algorithm error is recorded exactly when the
  algorithm is not in the discovery algorithms.
\<close>

definition keyAlgorithm :: "JWK list \<Rightarrow> string \<Rightarrow> string \<Rightarrow> string" where
  "keyAlgorithm keys kid alg =
     (case find (\<lambda>jwk. KeyID jwk = kid) keys of None \<Rightarrow> alg | Some jwk \<Rightarrow> Algorithm jwk)"

definition selectionChecked ::
  "Config \<Rightarrow> string list \<Rightarrow> string \<Rightarrow> string \<Rightarrow> Error \<Rightarrow> Error
     \<Rightarrow> StructValidator \<Rightarrow> StructValidator \<Rightarrow> string \<Rightarrow> bool" where
  "selectionChecked config implicit alg kid algError kidError validator validator' alg' =
     ((kid \<noteq> [] \<longrightarrow>
         validator' = (if kid \<in> set (ResponseObjectSigningKeyIDs (Disc config)) then validator
                       else Push validator kidError)
         \<and> (kid \<in> set (ResponseObjectSigningKeyIDs (Disc config)) \<longrightarrow>
              alg' = keyAlgorithm (IssuerPrivateKeys config) kid alg))
      \<and> (kid = [] \<and> alg \<notin> set implicit \<longrightarrow>
           validator' = (if alg \<in> set (ResponseObjectSigningAlgs (Disc config)) then validator
                         else Push validator algError)))"

text \<open>
  A user-defined policy name that the policy table adds to the discovery list: neither blank
  nor one of the three reserved names.
\<close>

definition policyNameAdded :: "string \<Rightarrow> bool" where
  "policyNameAdded name =
     (name \<noteq> [] \<and> name \<noteq> policyOneFactor \<and> name \<noteq> policyTwoFactor \<and> name \<noteq> policyDeny)"

definition errPolicyInvalidNameStandard :: "string \<Rightarrow> Error" where
  "errPolicyInvalidNameStandard name =
     Errorf ''errFmtOIDCPolicyInvalidNameStandard''
       [Str name, Str ''name'', StrJoinAnd [policyOneFactor, policyTwoFactor, policyDeny], Str name]"

subsection \<open>One issuer key through the loop\<close>

text \<open>
  What one iteration of the key loop does with a key, read off the key alone. The iteration
  skips the key before it registers a key ID when the key is an RSA key without a modulus, or
  when the key ID is missing and its computation fails.
\<close>

definition resolvedKeyID :: "Externals \<Rightarrow> JWK \<Rightarrow> string" where
  "resolvedKeyID X jwk = (if KeyID jwk = [] then fst (jwkCalculateThumbprint X (Key jwk)) else KeyID jwk)"

definition keySkipped :: "Externals \<Rightarrow> JWK \<Rightarrow> bool" where
  "keySkipped X jwk =
     (Key jwk = RSAPrivateKey None
      \<or> (KeyID jwk = [] \<and> snd (jwkCalculateThumbprint X (Key jwk)) \<noteq> None))"

definition resolvedUse :: "JWKProperties \<Rightarrow> JWK \<Rightarrow> string" where
  "resolvedUse props jwk = (if Use jwk = [] then PropsUse props else Use jwk)"

definition resolvedAlgorithm :: "JWKProperties \<Rightarrow> JWK \<Rightarrow> string" where
  "resolvedAlgorithm props jwk = (if Algorithm jwk = [] then PropsAlgorithm props else Algorithm jwk)"

text \<open>
  The key once its properties are read, and the algorithm it then has: a key whose properties
  cannot be read stays as it is and offers no algorithm.
\<close>

definition keyWithProperties :: "Externals \<Rightarrow> JWK \<Rightarrow> JWK" where
  "keyWithProperties X jwk =
     (case schemaJWKGetProperties X jwk of
        Inl err \<Rightarrow> jwk
      | Inr props \<Rightarrow> jwk\<lparr>Use := resolvedUse props jwk, Algorithm := resolvedAlgorithm props jwk\<rparr>)"

definition algorithmWithProperties :: "Externals \<Rightarrow> JWK \<Rightarrow> string" where
  "algorithmWithProperties X jwk =
     (case schemaJWKGetProperties X jwk of
        Inl err \<Rightarrow> []
      | Inr props \<Rightarrow> resolvedAlgorithm props jwk)"

text \<open>The key as the iteration leaves it.\<close>

definition keyAfter :: "Externals \<Rightarrow> JWK \<Rightarrow> JWK" where
  "keyAfter X jwk =
     (if Key jwk = RSAPrivateKey None then jwk
      else if keySkipped X jwk then jwk\<lparr>KeyID := resolvedKeyID X jwk\<rparr>
      else keyWithProperties X (jwk\<lparr>KeyID := resolvedKeyID X jwk\<rparr>))"

text \<open>The entry of the discovery key IDs for the key: it stays empty for a skipped key.\<close>

definition keyIDEntry :: "Externals \<Rightarrow> JWK \<Rightarrow> string" where
  "keyIDEntry X jwk = (if keySkipped X jwk then [] else resolvedKeyID X jwk)"

text \<open>The algorithm the key offers to the discovery algorithms, empty when it offers none.\<close>

definition keyAlgorithmOffered :: "Externals \<Rightarrow> JWK \<Rightarrow> string" where
  "keyAlgorithmOffered X jwk =
     (if keySkipped X jwk then []
      else algorithmWithProperties X (jwk\<lparr>KeyID := resolvedKeyID X jwk\<rparr>))"

definition addAlgorithm :: "string list \<Rightarrow> string \<Rightarrow> string list" where
  "addAlgorithm algs alg = (if alg \<noteq> [] \<and> alg \<notin> set algs then algs @ [alg] else algs)"

text \<open>An error of the format that reports the missing RS256 key.\<close>

definition noRS256Recorded :: "StructValidator \<Rightarrow> bool" where
  "noRS256Recorded validator =
     (\<exists>args. Errorf ''errFmtOIDCProviderPrivateKeysNoRS256'' args \<in> set (errors validator))"

subsection \<open>The key pair check\<close>

text \<open>The errors of \<^verbatim>\<open>validateOIDCIssuerPrivateKeyPair\<close> for the key at index \<open>i\<close>.\<close>

definition rsaKeySizeError :: "nat \<Rightarrow> JWK \<Rightarrow> nat \<Rightarrow> Error" where
  "rsaKeySizeError i jwk n =
     Errorf ''errFmtOIDCProviderPrivateKeysRSAKeyLessThan2048Bits''
       [Num (i + 1), Str (KeyID jwk), Num (Size n * 8)]"

definition keyNotRSAOrECDSAError :: "nat \<Rightarrow> JWK \<Rightarrow> Error" where
  "keyNotRSAOrECDSAError i jwk =
     Errorf ''errFmtOIDCProviderPrivateKeysKeyNotRSAOrECDSA''
       [Num (i + 1), Str (KeyID jwk), KeyArg (Key jwk)]"

text \<open>
  What the certificate chain of the key adds, given whether the key passed the type and size
  check: nothing without certificates.
\<close>

definition certificateChainErrors :: "Externals \<Rightarrow> nat \<Rightarrow> JWK \<Rightarrow> bool \<Rightarrow> Error list" where
  "certificateChainErrors X i jwk checkEqualKey =
     (if HasCertificates X (CertificateChain jwk) then
        (if checkEqualKey \<and> \<not> EqualKey X (CertificateChain jwk) (Key jwk) then
           [Errorf ''errFmtOIDCProviderPrivateKeysKeyCertificateMismatch'' [Num (i + 1), Str (KeyID jwk)]]
         else [])
        @ (case Validate X (CertificateChain jwk) of
             Some err \<Rightarrow>
               [Errorf ''errFmtOIDCProviderPrivateKeysCertificateChainInvalid''
                  [Num (i + 1), Str (KeyID jwk), Str err]]
           | None \<Rightarrow> [])
      else [])"

subsection \<open>Valid key sets\<close>

text \<open>
  A well-formed key is one the loop registers and that offers an algorithm: it is not skipped,
  its properties can be read, and its algorithm, given or derived, is not empty. A valid key
  set has well-formed keys with pairwise distinct resolved key IDs.
\<close>

definition wellFormedKey :: "Externals \<Rightarrow> JWK \<Rightarrow> bool" where
  "wellFormedKey X jwk = (\<not> keySkipped X jwk \<and> keyAlgorithmOffered X jwk \<noteq> [])"

definition validKeySet :: "Externals \<Rightarrow> JWK list \<Rightarrow> bool" where
  "validKeySet X keys = (list_all (wellFormedKey X) keys \<and> distinct (map (resolvedKeyID X) keys))"

section \<open>Verification\<close>

subsection \<open>Algorithm and key ID resolution\<close>

lemma searchKeyIDByAlg_find:
  "searchKeyIDByAlg alg [] keys = (alg, firstKeyIDWithAlg keys alg)"
  by (induction keys) (auto simp: firstKeyIDWithAlg_def)

lemma searchAlgByKeyID_find:
  "searchAlgByKeyID [] kid keys = (firstAlgWithKeyID keys kid, kid)"
  by (induction keys) (auto simp: firstAlgWithKeyID_def)

text \<open>
  C3. For every algorithm, key ID, type-specific default and issuer key list, the shared
  resolution returns the inputs unchanged when both are given; the default algorithm, with
  the key ID of the first issuer key offering it (empty if none, or if the default is empty)
  when neither is given; the key ID of the first issuer key with the algorithm (empty if none)
  when only the algorithm is given; and the algorithm of the first issuer key with the key ID
  (empty if none) when only the key ID is given.
\<close>

theorem validateOIDCClientAlgKIDDefault_resolution:
  "validateOIDCClientAlgKIDDefault config alg kid algDefault =
     resolutionSpec (IssuerPrivateKeys config) alg kid algDefault"
  by (simp add: validateOIDCClientAlgKIDDefault_def resolutionSpec_def Let_def
      searchKeyIDByAlg_find searchAlgByKeyID_find)

subsection \<open>Reading and writing a client\<close>

lemma updClient_nth:
  "c < length (Clients config) \<Longrightarrow> Clients (updClient c f config) ! c = f (Clients config ! c)"
  by (simp add: updClient_def)

lemma updClient_length:
  "length (Clients (updClient c f config)) = length (Clients config)"
  by (simp add: updClient_def)

subsection \<open>Token endpoint authentication method\<close>

text \<open>
  C9. For every client whose token endpoint authentication method is non-empty and not one of
  the known methods, validation records the invalid-value error for the field and returns at
  once: that error is the only thing added, so no later check (missing secret, plain text
  secret, the requirements of private_key_jwt) reports anything, no warning is added, and the
  configuration is left as it was.
\<close>

theorem validateOIDCClientTokenEndpointAuth_unknown_method:
  assumes "c < length (Clients config)"
    and "TokenEndpointAuthMethod (Clients config ! c) \<noteq> []"
    and "\<not> IsStringInSlice (TokenEndpointAuthMethod (Clients config ! c))
             (validOIDCClientTokenEndpointAuthMethods X)"
  shows "validateOIDCClientTokenEndpointAuth X c config validator =
           Some (config, validator\<lparr>errors := errors validator @
             [Errorf ''errFmtOIDCClientInvalidValue''
                [Str (ID (Clients config ! c)), Name ''attrOIDCTokenAuthMethod'',
                 StrJoinOr (validOIDCClientTokenEndpointAuthMethods X),
                 Str (TokenEndpointAuthMethod (Clients config ! c))]]\<rparr>)"
  using assms by (simp add: validateOIDCClientTokenEndpointAuth_def Let_def Push_def)

theorem validateOIDCClientTokenEndpointAuth_unknown_method_witness:
  "validateOIDCClientTokenEndpointAuth exampleExternals 0
     (configOf (exampleClient\<lparr>TokenEndpointAuthMethod := ''bogus'', Secret := None\<rparr>)) emptyValidator =
   Some (configOf (exampleClient\<lparr>TokenEndpointAuthMethod := ''bogus'', Secret := None\<rparr>),
         \<lparr>errors = [Errorf ''errFmtOIDCClientInvalidValue''
            [Str ''app'', Name ''attrOIDCTokenAuthMethod'',
             StrJoinOr [''none'', ''client_secret_post'', ''client_secret_basic'', ''private_key_jwt'',
                        ''client_secret_jwt''],
             Str ''bogus'']],
          warnings = []\<rparr>)"
  using validateOIDCClientTokenEndpointAuth_unknown_method
    [of 0 "configOf (exampleClient\<lparr>TokenEndpointAuthMethod := ''bogus'', Secret := None\<rparr>)"
        exampleExternals emptyValidator]
  by (simp add: configOf_def exampleClient_def exampleExternals_def emptyValidator_def
      IsStringInSlice_def)

subsection \<open>Consent mode\<close>

text \<open>
  C10. For every client, the consent mode "auto" is treated as an unset consent mode is: the
  two give the same result. Either is replaced by the pre-configured mode when a
  pre-configured consent duration is configured and by the explicit mode otherwise, and no
  error is recorded. Whenever the resulting consent mode is the pre-configured mode and no
  duration was configured, the default duration is applied.
\<close>

theorem validateOIDCClientConsentMode_auto:
  assumes "c < length (Clients config)"
  shows "validateOIDCClientConsentMode X c (updClient c (\<lambda>cl. cl\<lparr>ConsentMode := auto X\<rparr>) config) validator
           = validateOIDCClientConsentMode X c (updClient c (\<lambda>cl. cl\<lparr>ConsentMode := []\<rparr>) config) validator
         \<and> (\<exists>config' validator'.
              validateOIDCClientConsentMode X c config validator = Some (config', validator')
              \<and> (ConsentMode (Clients config ! c) = [] \<or> ConsentMode (Clients config ! c) = auto X \<longrightarrow>
                   validator' = validator
                   \<and> ConsentMode (Clients config' ! c) =
                       (if ConsentPreConfiguredDuration (Clients config ! c) \<noteq> None
                        then ClientConsentModePreConfigured X else ClientConsentModeExplicit X))
              \<and> (ConsentMode (Clients config' ! c) = ClientConsentModePreConfigured X
                   \<and> ConsentPreConfiguredDuration (Clients config ! c) = None \<longrightarrow>
                   ConsentPreConfiguredDuration (Clients config' ! c) = DefaultConsentPreConfiguredDuration X))"
  using assms
  by (auto simp: validateOIDCClientConsentMode_def Let_def IsStringInSlice_def updClient_def)

theorem validateOIDCClientConsentMode_auto_witness:
  "(\<exists>config'. validateOIDCClientConsentMode exampleExternals 0
        (configOf (exampleClient\<lparr>ConsentMode := ''auto'', ConsentPreConfiguredDuration := Some 3600\<rparr>))
        emptyValidator = Some (config', emptyValidator)
      \<and> ConsentMode (Clients config' ! 0) = ''pre-configured'')
   \<and> (\<exists>config'. validateOIDCClientConsentMode exampleExternals 0
        (configOf (exampleClient\<lparr>ConsentMode := ''pre-configured''\<rparr>))
        emptyValidator = Some (config', emptyValidator)
      \<and> ConsentPreConfiguredDuration (Clients config' ! 0) = Some 604800)"
  using validateOIDCClientConsentMode_auto
    [of 0 "configOf (exampleClient\<lparr>ConsentMode := ''auto'', ConsentPreConfiguredDuration := Some 3600\<rparr>)"
        exampleExternals emptyValidator]
    validateOIDCClientConsentMode_auto
    [of 0 "configOf (exampleClient\<lparr>ConsentMode := ''pre-configured''\<rparr>)"
        exampleExternals emptyValidator]
  by (simp add: configOf_def exampleClient_def exampleExternals_def emptyValidator_def
      IsStringInSlice_def validateOIDCClientConsentMode_def updClient_def)

subsection \<open>Client public keys\<close>









subsection \<open>Signing selections\<close>

lemma responseObjectAlgSearch_find:
  "responseObjectAlgSearch kid alg keys = keyAlgorithm keys kid alg"
  by (induction keys) (auto simp: keyAlgorithm_def)

lemma getResponseObjectAlgFromKID_find:
  "getResponseObjectAlgFromKID config kid alg = keyAlgorithm (IssuerPrivateKeys config) kid alg"
  by (simp add: getResponseObjectAlgFromKID_def responseObjectAlgSearch_find)

lemma validateOIDDClientSigningAlgsIDToken_selection:
  assumes "c < length (Clients config)"
    and "validateOIDCClientAlgKIDDefault config (IDTokenSignedResponseAlg (Clients config ! c))
           (IDTokenSignedResponseKeyID (Clients config ! c)) (DefaultIDTokenSignedResponseAlg X) = (alg, kid)"
  shows "\<exists>config' validator'.
           validateOIDDClientSigningAlgsIDToken X c config validator = Some (config', validator')
           \<and> IDTokenSignedResponseKeyID (Clients config' ! c) = kid
           \<and> Disc config' = Disc config
           \<and> selectionChecked config [[], SigningAlgRSAUsingSHA256 X] alg kid
                (Errorf ''errFmtOIDCClientInvalidValue''
                   [Str (ID (Clients config ! c)), Name ''attrOIDCIDTokenSigAlg'',
                    StrJoinOr (ResponseObjectSigningAlgs (Disc config)), Str alg])
                (Errorf ''errFmtOIDCClientInvalidValue''
                   [Str (ID (Clients config ! c)), Name ''attrOIDCIDTokenSigKID'',
                    StrJoinOr (ResponseObjectSigningKeyIDs (Disc config)), Str kid])
                validator validator' (IDTokenSignedResponseAlg (Clients config' ! c))"
  using assms
  by (auto simp: validateOIDDClientSigningAlgsIDToken_def selectionChecked_def Let_def
      IsStringInSlice_def updClient_def updDisc_def getResponseObjectAlgFromKID_find)

lemma validateOIDDClientSigningAlgsAccessToken_selection:
  assumes "c < length (Clients config)"
    and "validateOIDCClientAlgKIDDefault config (AccessTokenSignedResponseAlg (Clients config ! c))
           (AccessTokenSignedResponseKeyID (Clients config ! c)) (DefaultAccessTokenSignedResponseAlg X) = (alg, kid)"
  shows "\<exists>config' validator'.
           validateOIDDClientSigningAlgsAccessToken X c config validator = Some (config', validator')
           \<and> AccessTokenSignedResponseKeyID (Clients config' ! c) = kid
           \<and> JWTResponseAccessTokens (Disc config') =
               (JWTResponseAccessTokens (Disc config)
                \<or> (kid \<noteq> [] \<and> kid \<in> set (ResponseObjectSigningKeyIDs (Disc config)))
                \<or> (kid = [] \<and> alg \<notin> {[], SigningAlgNone X, SigningAlgRSAUsingSHA256 X}
                    \<and> alg \<in> set (ResponseObjectSigningAlgs (Disc config))))
           \<and> selectionChecked config [[], SigningAlgNone X, SigningAlgRSAUsingSHA256 X] alg kid
                (Errorf ''errFmtOIDCClientInvalidValue''
                   [Str (ID (Clients config ! c)), Name ''attrOIDCAccessTokenSigAlg'',
                    StrJoinOr (ResponseObjectSigningAlgs (Disc config)), Str alg])
                (Errorf ''errFmtOIDCClientInvalidValue''
                   [Str (ID (Clients config ! c)), Name ''attrOIDCAccessTokenSigKID'',
                    StrJoinOr (ResponseObjectSigningKeyIDs (Disc config)), Str kid])
                validator validator' (AccessTokenSignedResponseAlg (Clients config' ! c))"
  using assms
  by (auto simp: validateOIDDClientSigningAlgsAccessToken_def selectionChecked_def Let_def
      IsStringInSlice_def updClient_def updDisc_def getResponseObjectAlgFromKID_find)

lemma validateOIDDClientSigningAlgsUserInfo_selection:
  assumes "c < length (Clients config)"
    and "validateOIDCClientAlgKIDDefault config (UserinfoSignedResponseAlg (Clients config ! c))
           (UserinfoSignedResponseKeyID (Clients config ! c)) (DefaultUserinfoSignedResponseAlg X) = (alg, kid)"
  shows "\<exists>config' validator'.
           validateOIDDClientSigningAlgsUserInfo X c config validator = Some (config', validator')
           \<and> UserinfoSignedResponseKeyID (Clients config' ! c) = kid
           \<and> Disc config' = Disc config
           \<and> selectionChecked config [[], SigningAlgNone X, SigningAlgRSAUsingSHA256 X] alg kid
                (Errorf ''errFmtOIDCClientInvalidValue''
                   [Str (ID (Clients config ! c)), Name ''attrOIDCUsrSigAlg'',
                    StrJoinOr (ResponseObjectSigningAlgs (Disc config) @ [SigningAlgNone X]), Str alg])
                (Errorf ''errFmtOIDCClientInvalidValue''
                   [Str (ID (Clients config ! c)), Name ''attrOIDCUsrSigKID'',
                    StrJoinOr (ResponseObjectSigningKeyIDs (Disc config)), Str kid])
                validator validator' (UserinfoSignedResponseAlg (Clients config' ! c))"
  using assms
  by (auto simp: validateOIDDClientSigningAlgsUserInfo_def selectionChecked_def Let_def
      IsStringInSlice_def updClient_def updDisc_def getResponseObjectAlgFromKID_find)

lemma validateOIDDClientSigningAlgsIntrospection_selection:
  assumes "c < length (Clients config)"
    and "validateOIDCClientAlgKIDDefault config (IntrospectionSignedResponseAlg (Clients config ! c))
           (IntrospectionSignedResponseKeyID (Clients config ! c)) (DefaultIntrospectionSignedResponseAlg X) = (alg, kid)"
  shows "\<exists>config' validator'.
           validateOIDDClientSigningAlgsIntrospection X c config validator = Some (config', validator')
           \<and> IntrospectionSignedResponseKeyID (Clients config' ! c) = kid
           \<and> Disc config' = Disc config
           \<and> selectionChecked config [[], SigningAlgNone X, SigningAlgRSAUsingSHA256 X] alg kid
                (Errorf ''errFmtOIDCClientInvalidValue''
                   [Str (ID (Clients config ! c)), Name ''attrOIDCIntrospectionSigAlg'',
                    StrJoinOr (ResponseObjectSigningAlgs (Disc config) @ [SigningAlgNone X]), Str alg])
                (Errorf ''errFmtOIDCClientInvalidValue''
                   [Str (ID (Clients config ! c)), Name ''attrOIDCIntrospectionSigKID'',
                    StrJoinOr (ResponseObjectSigningKeyIDs (Disc config)), Str kid])
                validator validator' (IntrospectionSignedResponseAlg (Clients config' ! c))"
  using assms
  by (auto simp: validateOIDDClientSigningAlgsIntrospection_def selectionChecked_def Let_def
      IsStringInSlice_def updClient_def updDisc_def getResponseObjectAlgFromKID_find)

lemma validateOIDDClientSigningAlgsJARM_selection:
  assumes "c < length (Clients config)"
    and "validateOIDCClientAlgKIDDefault config (AuthorizationSignedResponseAlg (Clients config ! c))
           (AuthorizationSignedResponseKeyID (Clients config ! c)) (DefaultAuthorizationSignedResponseAlg X) = (alg, kid)"
  shows "\<exists>config' validator'.
           validateOIDDClientSigningAlgsJARM X c config validator = Some (config', validator')
           \<and> AuthorizationSignedResponseKeyID (Clients config' ! c) = kid
           \<and> Disc config' = Disc config
           \<and> selectionChecked config [[], SigningAlgNone X, SigningAlgRSAUsingSHA256 X] alg kid
                (Errorf ''errFmtOIDCClientInvalidValue''
                   [Str (ID (Clients config ! c)), Name ''attrOIDCAuthorizationSigAlg'',
                    StrJoinOr (ResponseObjectSigningAlgs (Disc config)), Str alg])
                (Errorf ''errFmtOIDCClientInvalidValue''
                   [Str (ID (Clients config ! c)), Name ''attrOIDCAuthorizationSigKID'',
                    StrJoinOr (ResponseObjectSigningKeyIDs (Disc config)), Str kid])
                validator validator' (AuthorizationSignedResponseAlg (Clients config' ! c))"
  using assms
  by (auto simp: validateOIDDClientSigningAlgsJARM_def selectionChecked_def Let_def
      IsStringInSlice_def updClient_def updDisc_def getResponseObjectAlgFromKID_find)
text \<open>
  C4. For every client and each of its five signing selections (ID Token, Access Token,
  Userinfo, Introspection, JARM), with \<open>alg\<close> and \<open>kid\<close> the result of the resolution: the
  function returns, the client keeps \<open>kid\<close>, and the selection is checked as the specification
  says, the implicitly valid algorithms being the empty one and RS256 for the ID Token, and
  the empty one, none and RS256 for the others.
\<close>

theorem validateOIDDClientSigningAlgs_selection_checked:
  assumes "c < length (Clients config)"
  shows "(case validateOIDCClientAlgKIDDefault config (IDTokenSignedResponseAlg (Clients config ! c))
                 (IDTokenSignedResponseKeyID (Clients config ! c)) (DefaultIDTokenSignedResponseAlg X) of
            (alg, kid) \<Rightarrow>
              \<exists>config' validator'.
                validateOIDDClientSigningAlgsIDToken X c config validator = Some (config', validator')
                \<and> IDTokenSignedResponseKeyID (Clients config' ! c) = kid
                \<and> selectionChecked config [[], SigningAlgRSAUsingSHA256 X] alg kid
                     (Errorf ''errFmtOIDCClientInvalidValue''
                        [Str (ID (Clients config ! c)), Name ''attrOIDCIDTokenSigAlg'',
                         StrJoinOr (ResponseObjectSigningAlgs (Disc config)), Str alg])
                     (Errorf ''errFmtOIDCClientInvalidValue''
                        [Str (ID (Clients config ! c)), Name ''attrOIDCIDTokenSigKID'',
                         StrJoinOr (ResponseObjectSigningKeyIDs (Disc config)), Str kid])
                     validator validator' (IDTokenSignedResponseAlg (Clients config' ! c)))
         \<and> (case validateOIDCClientAlgKIDDefault config (AccessTokenSignedResponseAlg (Clients config ! c))
                 (AccessTokenSignedResponseKeyID (Clients config ! c)) (DefaultAccessTokenSignedResponseAlg X) of
            (alg, kid) \<Rightarrow>
              \<exists>config' validator'.
                validateOIDDClientSigningAlgsAccessToken X c config validator = Some (config', validator')
                \<and> AccessTokenSignedResponseKeyID (Clients config' ! c) = kid
                \<and> selectionChecked config [[], SigningAlgNone X, SigningAlgRSAUsingSHA256 X] alg kid
                     (Errorf ''errFmtOIDCClientInvalidValue''
                        [Str (ID (Clients config ! c)), Name ''attrOIDCAccessTokenSigAlg'',
                         StrJoinOr (ResponseObjectSigningAlgs (Disc config)), Str alg])
                     (Errorf ''errFmtOIDCClientInvalidValue''
                        [Str (ID (Clients config ! c)), Name ''attrOIDCAccessTokenSigKID'',
                         StrJoinOr (ResponseObjectSigningKeyIDs (Disc config)), Str kid])
                     validator validator' (AccessTokenSignedResponseAlg (Clients config' ! c)))
         \<and> (case validateOIDCClientAlgKIDDefault config (UserinfoSignedResponseAlg (Clients config ! c))
                 (UserinfoSignedResponseKeyID (Clients config ! c)) (DefaultUserinfoSignedResponseAlg X) of
            (alg, kid) \<Rightarrow>
              \<exists>config' validator'.
                validateOIDDClientSigningAlgsUserInfo X c config validator = Some (config', validator')
                \<and> UserinfoSignedResponseKeyID (Clients config' ! c) = kid
                \<and> selectionChecked config [[], SigningAlgNone X, SigningAlgRSAUsingSHA256 X] alg kid
                     (Errorf ''errFmtOIDCClientInvalidValue''
                        [Str (ID (Clients config ! c)), Name ''attrOIDCUsrSigAlg'',
                         StrJoinOr (ResponseObjectSigningAlgs (Disc config) @ [SigningAlgNone X]), Str alg])
                     (Errorf ''errFmtOIDCClientInvalidValue''
                        [Str (ID (Clients config ! c)), Name ''attrOIDCUsrSigKID'',
                         StrJoinOr (ResponseObjectSigningKeyIDs (Disc config)), Str kid])
                     validator validator' (UserinfoSignedResponseAlg (Clients config' ! c)))
         \<and> (case validateOIDCClientAlgKIDDefault config (IntrospectionSignedResponseAlg (Clients config ! c))
                 (IntrospectionSignedResponseKeyID (Clients config ! c)) (DefaultIntrospectionSignedResponseAlg X) of
            (alg, kid) \<Rightarrow>
              \<exists>config' validator'.
                validateOIDDClientSigningAlgsIntrospection X c config validator = Some (config', validator')
                \<and> IntrospectionSignedResponseKeyID (Clients config' ! c) = kid
                \<and> selectionChecked config [[], SigningAlgNone X, SigningAlgRSAUsingSHA256 X] alg kid
                     (Errorf ''errFmtOIDCClientInvalidValue''
                        [Str (ID (Clients config ! c)), Name ''attrOIDCIntrospectionSigAlg'',
                         StrJoinOr (ResponseObjectSigningAlgs (Disc config) @ [SigningAlgNone X]), Str alg])
                     (Errorf ''errFmtOIDCClientInvalidValue''
                        [Str (ID (Clients config ! c)), Name ''attrOIDCIntrospectionSigKID'',
                         StrJoinOr (ResponseObjectSigningKeyIDs (Disc config)), Str kid])
                     validator validator' (IntrospectionSignedResponseAlg (Clients config' ! c)))
         \<and> (case validateOIDCClientAlgKIDDefault config (AuthorizationSignedResponseAlg (Clients config ! c))
                 (AuthorizationSignedResponseKeyID (Clients config ! c)) (DefaultAuthorizationSignedResponseAlg X) of
            (alg, kid) \<Rightarrow>
              \<exists>config' validator'.
                validateOIDDClientSigningAlgsJARM X c config validator = Some (config', validator')
                \<and> AuthorizationSignedResponseKeyID (Clients config' ! c) = kid
                \<and> selectionChecked config [[], SigningAlgNone X, SigningAlgRSAUsingSHA256 X] alg kid
                     (Errorf ''errFmtOIDCClientInvalidValue''
                        [Str (ID (Clients config ! c)), Name ''attrOIDCAuthorizationSigAlg'',
                         StrJoinOr (ResponseObjectSigningAlgs (Disc config)), Str alg])
                     (Errorf ''errFmtOIDCClientInvalidValue''
                        [Str (ID (Clients config ! c)), Name ''attrOIDCAuthorizationSigKID'',
                         StrJoinOr (ResponseObjectSigningKeyIDs (Disc config)), Str kid])
                     validator validator' (AuthorizationSignedResponseAlg (Clients config' ! c)))"
proof (intro conjI)
  show "case validateOIDCClientAlgKIDDefault config (IDTokenSignedResponseAlg (Clients config ! c))
                 (IDTokenSignedResponseKeyID (Clients config ! c)) (DefaultIDTokenSignedResponseAlg X) of
            (alg, kid) \<Rightarrow>
              \<exists>config' validator'.
                validateOIDDClientSigningAlgsIDToken X c config validator = Some (config', validator')
                \<and> IDTokenSignedResponseKeyID (Clients config' ! c) = kid
                \<and> selectionChecked config [[], SigningAlgRSAUsingSHA256 X] alg kid
                     (Errorf ''errFmtOIDCClientInvalidValue''
                        [Str (ID (Clients config ! c)), Name ''attrOIDCIDTokenSigAlg'',
                         StrJoinOr (ResponseObjectSigningAlgs (Disc config)), Str alg])
                     (Errorf ''errFmtOIDCClientInvalidValue''
                        [Str (ID (Clients config ! c)), Name ''attrOIDCIDTokenSigKID'',
                         StrJoinOr (ResponseObjectSigningKeyIDs (Disc config)), Str kid])
                     validator validator' (IDTokenSignedResponseAlg (Clients config' ! c))"
    using validateOIDDClientSigningAlgsIDToken_selection [OF assms, of X _ _ validator]
    by (auto split: prod.splits)
next
  show "case validateOIDCClientAlgKIDDefault config (AccessTokenSignedResponseAlg (Clients config ! c))
                 (AccessTokenSignedResponseKeyID (Clients config ! c)) (DefaultAccessTokenSignedResponseAlg X) of
            (alg, kid) \<Rightarrow>
              \<exists>config' validator'.
                validateOIDDClientSigningAlgsAccessToken X c config validator = Some (config', validator')
                \<and> AccessTokenSignedResponseKeyID (Clients config' ! c) = kid
                \<and> selectionChecked config [[], SigningAlgNone X, SigningAlgRSAUsingSHA256 X] alg kid
                     (Errorf ''errFmtOIDCClientInvalidValue''
                        [Str (ID (Clients config ! c)), Name ''attrOIDCAccessTokenSigAlg'',
                         StrJoinOr (ResponseObjectSigningAlgs (Disc config)), Str alg])
                     (Errorf ''errFmtOIDCClientInvalidValue''
                        [Str (ID (Clients config ! c)), Name ''attrOIDCAccessTokenSigKID'',
                         StrJoinOr (ResponseObjectSigningKeyIDs (Disc config)), Str kid])
                     validator validator' (AccessTokenSignedResponseAlg (Clients config' ! c))"
    using validateOIDDClientSigningAlgsAccessToken_selection [OF assms, of X _ _ validator]
    by (fastforce split: prod.splits)
next
  show "case validateOIDCClientAlgKIDDefault config (UserinfoSignedResponseAlg (Clients config ! c))
                 (UserinfoSignedResponseKeyID (Clients config ! c)) (DefaultUserinfoSignedResponseAlg X) of
            (alg, kid) \<Rightarrow>
              \<exists>config' validator'.
                validateOIDDClientSigningAlgsUserInfo X c config validator = Some (config', validator')
                \<and> UserinfoSignedResponseKeyID (Clients config' ! c) = kid
                \<and> selectionChecked config [[], SigningAlgNone X, SigningAlgRSAUsingSHA256 X] alg kid
                     (Errorf ''errFmtOIDCClientInvalidValue''
                        [Str (ID (Clients config ! c)), Name ''attrOIDCUsrSigAlg'',
                         StrJoinOr (ResponseObjectSigningAlgs (Disc config) @ [SigningAlgNone X]), Str alg])
                     (Errorf ''errFmtOIDCClientInvalidValue''
                        [Str (ID (Clients config ! c)), Name ''attrOIDCUsrSigKID'',
                         StrJoinOr (ResponseObjectSigningKeyIDs (Disc config)), Str kid])
                     validator validator' (UserinfoSignedResponseAlg (Clients config' ! c))"
    using validateOIDDClientSigningAlgsUserInfo_selection [OF assms, of X _ _ validator]
    by (fastforce split: prod.splits)
next
  show "case validateOIDCClientAlgKIDDefault config (IntrospectionSignedResponseAlg (Clients config ! c))
                 (IntrospectionSignedResponseKeyID (Clients config ! c)) (DefaultIntrospectionSignedResponseAlg X) of
            (alg, kid) \<Rightarrow>
              \<exists>config' validator'.
                validateOIDDClientSigningAlgsIntrospection X c config validator = Some (config', validator')
                \<and> IntrospectionSignedResponseKeyID (Clients config' ! c) = kid
                \<and> selectionChecked config [[], SigningAlgNone X, SigningAlgRSAUsingSHA256 X] alg kid
                     (Errorf ''errFmtOIDCClientInvalidValue''
                        [Str (ID (Clients config ! c)), Name ''attrOIDCIntrospectionSigAlg'',
                         StrJoinOr (ResponseObjectSigningAlgs (Disc config) @ [SigningAlgNone X]), Str alg])
                     (Errorf ''errFmtOIDCClientInvalidValue''
                        [Str (ID (Clients config ! c)), Name ''attrOIDCIntrospectionSigKID'',
                         StrJoinOr (ResponseObjectSigningKeyIDs (Disc config)), Str kid])
                     validator validator' (IntrospectionSignedResponseAlg (Clients config' ! c))"
    using validateOIDDClientSigningAlgsIntrospection_selection [OF assms, of X _ _ validator]
    by (fastforce split: prod.splits)
next
  show "case validateOIDCClientAlgKIDDefault config (AuthorizationSignedResponseAlg (Clients config ! c))
                 (AuthorizationSignedResponseKeyID (Clients config ! c)) (DefaultAuthorizationSignedResponseAlg X) of
            (alg, kid) \<Rightarrow>
              \<exists>config' validator'.
                validateOIDDClientSigningAlgsJARM X c config validator = Some (config', validator')
                \<and> AuthorizationSignedResponseKeyID (Clients config' ! c) = kid
                \<and> selectionChecked config [[], SigningAlgNone X, SigningAlgRSAUsingSHA256 X] alg kid
                     (Errorf ''errFmtOIDCClientInvalidValue''
                        [Str (ID (Clients config ! c)), Name ''attrOIDCAuthorizationSigAlg'',
                         StrJoinOr (ResponseObjectSigningAlgs (Disc config)), Str alg])
                     (Errorf ''errFmtOIDCClientInvalidValue''
                        [Str (ID (Clients config ! c)), Name ''attrOIDCAuthorizationSigKID'',
                         StrJoinOr (ResponseObjectSigningKeyIDs (Disc config)), Str kid])
                     validator validator' (AuthorizationSignedResponseAlg (Clients config' ! c))"
    using validateOIDDClientSigningAlgsJARM_selection [OF assms, of X _ _ validator]
    by (fastforce split: prod.splits)
qed

theorem validateOIDDClientSigningAlgs_selection_checked_witness:
  "(\<exists>config'. validateOIDDClientSigningAlgsIDToken exampleExternals 0 (providerOf selectionsClient) emptyValidator =
      Some (config', Push emptyValidator (Errorf ''errFmtOIDCClientInvalidValue''
        [Str ''app'', Name ''attrOIDCIDTokenSigKID'', StrJoinOr [''k1''], Str ''k9''])))
   \<and> (\<exists>config'. validateOIDDClientSigningAlgsJARM exampleExternals 0 (providerOf selectionsClient) emptyValidator =
      Some (config', emptyValidator)
      \<and> AuthorizationSignedResponseAlg (Clients config' ! 0) = ''ES256'')
   \<and> (\<exists>config'. validateOIDDClientSigningAlgsUserInfo exampleExternals 0 (providerOf selectionsClient) emptyValidator =
      Some (config', Push emptyValidator (Errorf ''errFmtOIDCClientInvalidValue''
        [Str ''app'', Name ''attrOIDCUsrSigAlg'', StrJoinOr [''ES256'', ''none''], Str ''PS256''])))"
proof -
  have res:
    "validateOIDCClientAlgKIDDefault (providerOf selectionsClient) [] ''k9'' ''RS256'' = ([], ''k9'')"
    "validateOIDCClientAlgKIDDefault (providerOf selectionsClient) [] ''k1'' ''none'' = (''ES256'', ''k1'')"
    "validateOIDCClientAlgKIDDefault (providerOf selectionsClient) ''PS256'' [] ''none'' = (''PS256'', [])"
    by (simp_all add: validateOIDCClientAlgKIDDefault_def providerOf_def exampleKeyES256_def)
  have cl: "Clients (providerOf selectionsClient) ! 0 = selectionsClient"
    "length (Clients (providerOf selectionsClient)) = 1"
    "ResponseObjectSigningKeyIDs (Disc (providerOf selectionsClient)) = [''k1'']"
    "ResponseObjectSigningAlgs (Disc (providerOf selectionsClient)) = [''ES256'']"
    "IssuerPrivateKeys (providerOf selectionsClient) = [exampleKeyES256]"
    by (simp_all add: providerOf_def emptyDiscovery_def)
  have fl: "IDTokenSignedResponseAlg selectionsClient = []"
    "IDTokenSignedResponseKeyID selectionsClient = ''k9''"
    "AuthorizationSignedResponseAlg selectionsClient = []"
    "AuthorizationSignedResponseKeyID selectionsClient = ''k1''"
    "UserinfoSignedResponseAlg selectionsClient = ''PS256''"
    "UserinfoSignedResponseKeyID selectionsClient = []"
    "ID selectionsClient = ''app''"
    by (simp_all add: selectionsClient_def exampleClient_def)
  have ex: "DefaultIDTokenSignedResponseAlg exampleExternals = ''RS256''"
    "DefaultAuthorizationSignedResponseAlg exampleExternals = ''none''"
    "DefaultUserinfoSignedResponseAlg exampleExternals = ''none''"
    "SigningAlgNone exampleExternals = ''none''"
    "SigningAlgRSAUsingSHA256 exampleExternals = ''RS256''"
    by (simp_all add: exampleExternals_def)
  have len: "0 < length (Clients (providerOf selectionsClient))"
    by (simp add: cl)
  note t = validateOIDDClientSigningAlgs_selection_checked [OF len, of exampleExternals emptyValidator]
  from t [THEN conjunct1]
  have a: "\<exists>config'. validateOIDDClientSigningAlgsIDToken exampleExternals 0 (providerOf selectionsClient) emptyValidator =
      Some (config', Push emptyValidator (Errorf ''errFmtOIDCClientInvalidValue''
        [Str ''app'', Name ''attrOIDCIDTokenSigKID'', StrJoinOr [''k1''], Str ''k9'']))"
    by (auto simp: cl fl ex res selectionChecked_def)
  from t [THEN conjunct2, THEN conjunct2, THEN conjunct2, THEN conjunct2]
  have b: "\<exists>config'. validateOIDDClientSigningAlgsJARM exampleExternals 0 (providerOf selectionsClient) emptyValidator =
      Some (config', emptyValidator)
      \<and> AuthorizationSignedResponseAlg (Clients config' ! 0) = ''ES256''"
    by (auto simp: cl fl ex res selectionChecked_def keyAlgorithm_def exampleKeyES256_def)
  from t [THEN conjunct2, THEN conjunct2, THEN conjunct1]
  have c: "\<exists>config'. validateOIDDClientSigningAlgsUserInfo exampleExternals 0 (providerOf selectionsClient) emptyValidator =
      Some (config', Push emptyValidator (Errorf ''errFmtOIDCClientInvalidValue''
        [Str ''app'', Name ''attrOIDCUsrSigAlg'', StrJoinOr [''ES256'', ''none''], Str ''PS256'']))"
    by (auto simp: cl fl ex res selectionChecked_def)
  from a b c show ?thesis by blast
qed

text \<open>
  C2, as amended. For every client, the Access Token resolution sets the discovery-wide
  JWT-format-access-tokens flag whenever it resolves to a key ID that is in the discovery key
  IDs, or to no key ID and an algorithm other than the empty one, none and RS256 that is in
  the discovery algorithms, and leaves the flag as it was otherwise. The Introspection
  resolution never changes the flag.
\<close>

theorem validateOIDDClientSigningAlgs_JWTResponseAccessTokens:
  assumes "c < length (Clients config)"
  shows "(case validateOIDCClientAlgKIDDefault config (AccessTokenSignedResponseAlg (Clients config ! c))
                 (AccessTokenSignedResponseKeyID (Clients config ! c)) (DefaultAccessTokenSignedResponseAlg X) of
            (alg, kid) \<Rightarrow>
              \<exists>config' validator'.
                validateOIDDClientSigningAlgsAccessToken X c config validator = Some (config', validator')
                \<and> JWTResponseAccessTokens (Disc config') =
                    (JWTResponseAccessTokens (Disc config)
                     \<or> (kid \<noteq> [] \<and> kid \<in> set (ResponseObjectSigningKeyIDs (Disc config)))
                     \<or> (kid = [] \<and> alg \<notin> {[], SigningAlgNone X, SigningAlgRSAUsingSHA256 X}
                         \<and> alg \<in> set (ResponseObjectSigningAlgs (Disc config)))))
         \<and> (\<exists>config' validator'.
                validateOIDDClientSigningAlgsIntrospection X c config validator = Some (config', validator')
                \<and> JWTResponseAccessTokens (Disc config') = JWTResponseAccessTokens (Disc config))"
proof (intro conjI)
  show "case validateOIDCClientAlgKIDDefault config (AccessTokenSignedResponseAlg (Clients config ! c))
                 (AccessTokenSignedResponseKeyID (Clients config ! c)) (DefaultAccessTokenSignedResponseAlg X) of
            (alg, kid) \<Rightarrow>
              \<exists>config' validator'.
                validateOIDDClientSigningAlgsAccessToken X c config validator = Some (config', validator')
                \<and> JWTResponseAccessTokens (Disc config') =
                    (JWTResponseAccessTokens (Disc config)
                     \<or> (kid \<noteq> [] \<and> kid \<in> set (ResponseObjectSigningKeyIDs (Disc config)))
                     \<or> (kid = [] \<and> alg \<notin> {[], SigningAlgNone X, SigningAlgRSAUsingSHA256 X}
                         \<and> alg \<in> set (ResponseObjectSigningAlgs (Disc config))))"
    using validateOIDDClientSigningAlgsAccessToken_selection [OF assms, of X _ _ validator]
    by (fastforce split: prod.splits)
next
  obtain alg kid where
    "validateOIDCClientAlgKIDDefault config (IntrospectionSignedResponseAlg (Clients config ! c))
       (IntrospectionSignedResponseKeyID (Clients config ! c)) (DefaultIntrospectionSignedResponseAlg X) = (alg, kid)"
    by (cases "validateOIDCClientAlgKIDDefault config (IntrospectionSignedResponseAlg (Clients config ! c))
       (IntrospectionSignedResponseKeyID (Clients config ! c)) (DefaultIntrospectionSignedResponseAlg X)")
  from validateOIDDClientSigningAlgsIntrospection_selection [OF assms this, of validator]
  show "\<exists>config' validator'.
          validateOIDDClientSigningAlgsIntrospection X c config validator = Some (config', validator')
          \<and> JWTResponseAccessTokens (Disc config') = JWTResponseAccessTokens (Disc config)"
    by auto
qed

theorem validateOIDDClientSigningAlgs_JWTResponseAccessTokens_witness:
  "\<exists>config'. validateOIDDClientSigningAlgsAccessToken exampleExternals 0
       (providerOf (exampleClient\<lparr>AccessTokenSignedResponseKeyID := ''k1''\<rparr>)) emptyValidator =
     Some (config', emptyValidator)
     \<and> JWTResponseAccessTokens (Disc config')"
  using validateOIDDClientSigningAlgs_JWTResponseAccessTokens
    [of 0 "providerOf (exampleClient\<lparr>AccessTokenSignedResponseKeyID := ''k1''\<rparr>)" exampleExternals emptyValidator]
  by (simp add: providerOf_def exampleClient_def exampleExternals_def exampleKeyES256_def
      emptyDiscovery_def validateOIDCClientAlgKIDDefault_def
      validateOIDDClientSigningAlgsAccessToken_def
      IsStringInSlice_def updClient_def updDisc_def)

text \<open>
  The claim as stated fails for the Introspection resolution: it resolves this client to the
  key ID of an issuer key, which is in the discovery key IDs, adopts the key's algorithm ES256,
  and leaves the flag unset.
\<close>

theorem validateOIDDClientSigningAlgsIntrospection_flag_counterexample:
  "\<exists>config'. validateOIDDClientSigningAlgsIntrospection exampleExternals 0
       (providerOf (exampleClient\<lparr>IntrospectionSignedResponseKeyID := ''k1''\<rparr>)) emptyValidator =
     Some (config', emptyValidator)
     \<and> IntrospectionSignedResponseKeyID (Clients config' ! 0) = ''k1''
     \<and> ''k1'' \<in> set (ResponseObjectSigningKeyIDs (Disc config'))
     \<and> IntrospectionSignedResponseAlg (Clients config' ! 0) = ''ES256''
     \<and> \<not> JWTResponseAccessTokens (Disc config')"
  by (simp add: providerOf_def exampleClient_def exampleExternals_def exampleKeyES256_def
      emptyDiscovery_def validateOIDCClientAlgKIDDefault_def
      validateOIDDClientSigningAlgsIntrospection_def IsStringInSlice_def updClient_def updDisc_def
      getResponseObjectAlgFromKID_def)

subsection \<open>Authorization policies\<close>

lemma Push_errors: "errors (Push validator e) = errors validator @ [e]"
  by (simp add: Push_def)

lemma policyRulesIteration_errors:
  "e \<in> set (errors validator) \<Longrightarrow> e \<in> set (errors (snd (policyRulesIteration X name i rule validator)))"
  by (simp add: policyRulesIteration_def Let_def split_def Push_errors)

lemma policyRulesLoop_errors:
  "e \<in> set (errors validator) \<Longrightarrow> e \<in> set (errors (snd (policyRulesLoop X name i rules validator)))"
proof (induction rules arbitrary: i validator)
  case Nil
  then show ?case by simp
next
  case (Cons rule rules)
  from Cons.prems have "e \<in> set (errors (snd (policyRulesIteration X name i rule validator)))"
    by (rule policyRulesIteration_errors)
  then have "e \<in> set (errors (snd (policyRulesLoop X name (i + 1) rules
                 (snd (policyRulesIteration X name i rule validator)))))"
    by (rule Cons.IH)
  then show ?case by (simp add: Let_def split_def)
qed

lemma policyNameSwitch_add: "fst (policyNameSwitch name validator) = policyNameAdded name"
  by (simp add: policyNameSwitch_def policyNameAdded_def)

lemma policyNameSwitch_errors:
  assumes "e \<in> set (errors validator)
           \<or> (e = errPolicyInvalidNameStandard name \<and> \<not> policyNameAdded name \<and> name \<noteq> [])"
  shows "e \<in> set (errors (snd (policyNameSwitch name validator)))"
  using assms
  by (auto simp: policyNameSwitch_def policyNameAdded_def errPolicyInvalidNameStandard_def Push_errors)

lemma policyDefaultPolicySwitch_errors:
  "e \<in> set (errors validator) \<Longrightarrow> e \<in> set (errors (snd (policyDefaultPolicySwitch X name policy validator)))"
  by (simp add: policyDefaultPolicySwitch_def Push_errors)

lemma authorizationPoliciesIteration_names:
  assumes "authorizationPoliciesIteration X name policy config validator = (config', validator')"
  shows "DiscAuthorizationPolicies (Disc config') =
           DiscAuthorizationPolicies (Disc config) @ (if policyNameAdded name then [name] else [])"
proof -
  from assms have "config' = fst (authorizationPoliciesIteration X name policy config validator)"
    by simp
  then show ?thesis
    by (simp add: authorizationPoliciesIteration_def Let_def split_def updDisc_def policyNameSwitch_add)
qed

lemma authorizationPoliciesIteration_errors:
  assumes "authorizationPoliciesIteration X name policy config validator = (config', validator')"
    and "e \<in> set (errors validator)
         \<or> (e = errPolicyInvalidNameStandard name \<and> \<not> policyNameAdded name \<and> name \<noteq> [])"
  shows "e \<in> set (errors validator')"
proof -
  define v1 where "v1 = snd (policyNameSwitch name validator)"
  define p2 where "p2 = fst (policyDefaultPolicySwitch X name policy v1)"
  define v2 where "v2 = snd (policyDefaultPolicySwitch X name policy v1)"
  define v3 where "v3 =
    (if length (Rules p2) = 0 then
       Push v2 (Errorf ''errFmtOIDCPolicyMissingOption'' [Str name, Str ''rules''])
     else v2)"
  from assms(2) have "e \<in> set (errors v1)"
    unfolding v1_def by (rule policyNameSwitch_errors)
  then have "e \<in> set (errors v2)"
    unfolding v2_def by (rule policyDefaultPolicySwitch_errors)
  then have "e \<in> set (errors v3)"
    by (simp add: v3_def Push_errors)
  then have "e \<in> set (errors (snd (policyRulesLoop X name 0 (Rules p2) v3)))"
    by (rule policyRulesLoop_errors)
  moreover from assms(1) have
    "validator' = snd (authorizationPoliciesIteration X name policy config validator)"
    by simp
  then have "validator' = snd (policyRulesLoop X name 0 (Rules p2) v3)"
    by (simp add: authorizationPoliciesIteration_def Let_def split_def v1_def v2_def v3_def p2_def)
  ultimately show ?thesis by simp
qed

lemma authorizationPoliciesLoop_names:
  assumes "authorizationPoliciesLoop X entries config validator = (config', validator')"
  shows "DiscAuthorizationPolicies (Disc config') =
           DiscAuthorizationPolicies (Disc config) @ filter policyNameAdded (map fst entries)"
  using assms
proof (induction entries arbitrary: config validator)
  case Nil
  then show ?case by simp
next
  case (Cons entry entries)
  obtain name policy where entry: "entry = (name, policy)" by (cases entry)
  obtain config1 validator1 where
    it: "authorizationPoliciesIteration X name policy config validator = (config1, validator1)"
    by (cases "authorizationPoliciesIteration X name policy config validator")
  with Cons.prems entry have
    "authorizationPoliciesLoop X entries config1 validator1 = (config', validator')"
    by simp
  from Cons.IH [OF this] authorizationPoliciesIteration_names [OF it] entry
  show ?case by simp
qed

lemma authorizationPoliciesLoop_errors:
  assumes "authorizationPoliciesLoop X entries config validator = (config', validator')"
    and "e \<in> set (errors validator)
         \<or> (\<exists>name \<in> fst ` set entries.
               e = errPolicyInvalidNameStandard name \<and> \<not> policyNameAdded name \<and> name \<noteq> [])"
  shows "e \<in> set (errors validator')"
  using assms
proof (induction entries arbitrary: config validator)
  case Nil
  then show ?case by simp
next
  case (Cons entry entries)
  obtain name policy where entry: "entry = (name, policy)" by (cases entry)
  obtain config1 validator1 where
    it: "authorizationPoliciesIteration X name policy config validator = (config1, validator1)"
    by (cases "authorizationPoliciesIteration X name policy config validator")
  with Cons.prems(1) entry have
    rest: "authorizationPoliciesLoop X entries config1 validator1 = (config', validator')"
    by simp
  from Cons.prems(2) entry have
    "(e \<in> set (errors validator)
       \<or> (e = errPolicyInvalidNameStandard name \<and> \<not> policyNameAdded name \<and> name \<noteq> []))
     \<or> (\<exists>name \<in> fst ` set entries.
           e = errPolicyInvalidNameStandard name \<and> \<not> policyNameAdded name \<and> name \<noteq> [])"
    by auto
  then show ?case
  proof
    assume "e \<in> set (errors validator)
       \<or> (e = errPolicyInvalidNameStandard name \<and> \<not> policyNameAdded name \<and> name \<noteq> [])"
    from authorizationPoliciesIteration_errors [OF it this]
    show ?thesis using Cons.IH [OF rest] by blast
  next
    assume "\<exists>name \<in> fst ` set entries.
           e = errPolicyInvalidNameStandard name \<and> \<not> policyNameAdded name \<and> name \<noteq> []"
    then show ?thesis using Cons.IH [OF rest] by blast
  qed
qed

text \<open>
  C1, as amended. For every configuration, the discovery policy-name list after the build is
  \<^verbatim>\<open>one_factor\<close>, \<^verbatim>\<open>two_factor\<close> and then, in the order of the visit, the user-defined names that
  are neither blank nor reserved. So \<^verbatim>\<open>one_factor\<close> and \<^verbatim>\<open>two_factor\<close> are always in it and
  \<^verbatim>\<open>deny\<close> never is, and a user-defined policy named \<^verbatim>\<open>one_factor\<close>, \<^verbatim>\<open>two_factor\<close> or \<^verbatim>\<open>deny\<close> produces
  an error and is not added to the list.
\<close>

theorem validateOIDCAuthorizationPolicies_discovery:
  assumes "validateOIDCAuthorizationPolicies X config validator = (config', validator')"
  shows "DiscAuthorizationPolicies (Disc config') =
           [policyOneFactor, policyTwoFactor]
           @ filter policyNameAdded (map fst (AuthorizationPolicies config))
         \<and> policyOneFactor \<in> set (DiscAuthorizationPolicies (Disc config'))
         \<and> policyTwoFactor \<in> set (DiscAuthorizationPolicies (Disc config'))
         \<and> policyDeny \<notin> set (DiscAuthorizationPolicies (Disc config'))
         \<and> (\<forall>name \<in> {policyOneFactor, policyTwoFactor, policyDeny}.
               name \<in> fst ` set (AuthorizationPolicies config) \<longrightarrow>
               errPolicyInvalidNameStandard name \<in> set (errors validator')
               \<and> \<not> policyNameAdded name)"
proof -
  let ?config0 = "updDisc (\<lambda>d. d\<lparr>DiscAuthorizationPolicies := [policyOneFactor, policyTwoFactor]\<rparr>) config"
  from assms have
    loop: "authorizationPoliciesLoop X (AuthorizationPolicies config) ?config0 validator = (config', validator')"
    by (simp add: validateOIDCAuthorizationPolicies_def Let_def updDisc_def)
  from authorizationPoliciesLoop_names [OF loop] have
    names: "DiscAuthorizationPolicies (Disc config') =
              [policyOneFactor, policyTwoFactor]
              @ filter policyNameAdded (map fst (AuthorizationPolicies config))"
    by (simp add: updDisc_def)
  have deny: "policyDeny \<notin> set (DiscAuthorizationPolicies (Disc config'))"
    by (auto simp: names policyNameAdded_def policyDeny_def policyOneFactor_def policyTwoFactor_def)
  have errs: "errPolicyInvalidNameStandard name \<in> set (errors validator') \<and> \<not> policyNameAdded name"
    if "name \<in> {policyOneFactor, policyTwoFactor, policyDeny}"
      and "name \<in> fst ` set (AuthorizationPolicies config)" for name
  proof -
    from that(1) have r: "\<not> policyNameAdded name" "name \<noteq> []"
      by (auto simp: policyNameAdded_def policyDeny_def policyOneFactor_def policyTwoFactor_def)
    with that(2) authorizationPoliciesLoop_errors [OF loop, of "errPolicyInvalidNameStandard name"]
    show ?thesis by blast
  qed
  from names deny errs show ?thesis by simp
qed

theorem validateOIDCAuthorizationPolicies_discovery_witness:
  "DiscAuthorizationPolicies (Disc (fst (validateOIDCAuthorizationPolicies exampleExternals
       policiesConfig emptyValidator))) = [''one_factor'', ''two_factor'', ''staff'']
   \<and> Errorf ''errFmtOIDCPolicyInvalidNameStandard''
        [Str ''deny'', Str ''name'', StrJoinAnd [''one_factor'', ''two_factor'', ''deny''], Str ''deny'']
      \<in> set (errors (snd (validateOIDCAuthorizationPolicies exampleExternals policiesConfig emptyValidator)))"
  using validateOIDCAuthorizationPolicies_discovery
    [of exampleExternals policiesConfig emptyValidator
        "fst (validateOIDCAuthorizationPolicies exampleExternals policiesConfig emptyValidator)"
        "snd (validateOIDCAuthorizationPolicies exampleExternals policiesConfig emptyValidator)"]
  by (simp add: policiesConfig_def policyNameAdded_def policyDeny_def policyOneFactor_def
      policyTwoFactor_def errPolicyInvalidNameStandard_def)

text \<open>
  The claim as stated fails: \<^verbatim>\<open>deny\<close> is not in the discovery list, here for a configuration
  with no user-defined policy.
\<close>

theorem validateOIDCAuthorizationPolicies_deny_counterexample:
  "DiscAuthorizationPolicies (Disc (fst (validateOIDCAuthorizationPolicies exampleExternals
       (configOf exampleClient) emptyValidator))) = [''one_factor'', ''two_factor'']
   \<and> ''deny'' \<notin> set (DiscAuthorizationPolicies (Disc (fst (validateOIDCAuthorizationPolicies
        exampleExternals (configOf exampleClient) emptyValidator))))"
  by (simp add: validateOIDCAuthorizationPolicies_def configOf_def updDisc_def emptyDiscovery_def
      policyOneFactor_def policyTwoFactor_def)

subsection \<open>Issuer private keys: one iteration\<close>

lemma noRS256Recorded_Push:
  "noRS256Recorded (Push validator (Errorf f args)) =
     (noRS256Recorded validator \<or> f = ''errFmtOIDCProviderPrivateKeysNoRS256'')"
  by (auto simp: noRS256Recorded_def Push_errors)

lemma issuerPrivateKeysUseSwitch_result:
  assumes "i < length (IssuerPrivateKeys config)"
  shows "IssuerPrivateKeys (fst (issuerPrivateKeysUseSwitch X i props config validator)) =
           (IssuerPrivateKeys config)[i := (IssuerPrivateKeys config ! i)
              \<lparr>Use := resolvedUse props (IssuerPrivateKeys config ! i)\<rparr>]"
    and "Disc (fst (issuerPrivateKeysUseSwitch X i props config validator)) = Disc config"
    and "noRS256Recorded (snd (issuerPrivateKeysUseSwitch X i props config validator)) =
           noRS256Recorded validator"
  using assms
  by (simp_all add: issuerPrivateKeysUseSwitch_def Let_def updKey_def resolvedUse_def
      noRS256Recorded_Push)

lemma issuerPrivateKeysAlgSwitch_result:
  assumes "i < length (IssuerPrivateKeys config)"
  shows "IssuerPrivateKeys (fst (issuerPrivateKeysAlgSwitch X i props config validator)) =
           (IssuerPrivateKeys config)[i := (IssuerPrivateKeys config ! i)
              \<lparr>Algorithm := resolvedAlgorithm props (IssuerPrivateKeys config ! i)\<rparr>]"
    and "ResponseObjectSigningKeyIDs (Disc (fst (issuerPrivateKeysAlgSwitch X i props config validator))) =
           ResponseObjectSigningKeyIDs (Disc config)"
    and "ResponseObjectSigningAlgs (Disc (fst (issuerPrivateKeysAlgSwitch X i props config validator))) =
           ResponseObjectSigningAlgs (Disc config)"
    and "noRS256Recorded (snd (issuerPrivateKeysAlgSwitch X i props config validator)) =
           noRS256Recorded validator"
  using assms
  by (simp_all add: issuerPrivateKeysAlgSwitch_def Let_def updKey_def updDisc_def resolvedAlgorithm_def
      noRS256Recorded_Push)

lemma issuerPrivateKeysAlgDiscovery_result:
  shows "IssuerPrivateKeys (issuerPrivateKeysAlgDiscovery i config) = IssuerPrivateKeys config"
    and "ResponseObjectSigningKeyIDs (Disc (issuerPrivateKeysAlgDiscovery i config)) =
           ResponseObjectSigningKeyIDs (Disc config)"
    and "ResponseObjectSigningAlgs (Disc (issuerPrivateKeysAlgDiscovery i config)) =
           addAlgorithm (ResponseObjectSigningAlgs (Disc config)) (Algorithm (IssuerPrivateKeys config ! i))"
  by (simp_all add: issuerPrivateKeysAlgDiscovery_def Let_def updDisc_def addAlgorithm_def
      IsStringInSlice_def)

lemma validateOIDCIssuerPrivateKeysUseAlg_result:
  assumes "i < length (IssuerPrivateKeys config)"
  shows "\<exists>config' validator'.
           validateOIDCIssuerPrivateKeysUseAlg X i props config validator = Some (config', validator')
           \<and> IssuerPrivateKeys config' =
               (IssuerPrivateKeys config)[i := (IssuerPrivateKeys config ! i)
                  \<lparr>Use := resolvedUse props (IssuerPrivateKeys config ! i),
                   Algorithm := resolvedAlgorithm props (IssuerPrivateKeys config ! i)\<rparr>]
           \<and> ResponseObjectSigningKeyIDs (Disc config') = ResponseObjectSigningKeyIDs (Disc config)
           \<and> ResponseObjectSigningAlgs (Disc config') =
               addAlgorithm (ResponseObjectSigningAlgs (Disc config))
                 (resolvedAlgorithm props (IssuerPrivateKeys config ! i))
           \<and> noRS256Recorded validator' = noRS256Recorded validator"
proof -
  let ?s1 = "issuerPrivateKeysUseSwitch X i props config validator"
  let ?s2 = "issuerPrivateKeysAlgSwitch X i props (fst ?s1) (snd ?s1)"
  have l1: "i < length (IssuerPrivateKeys (fst ?s1))"
    using assms by (simp add: issuerPrivateKeysUseSwitch_result(1))
  have r: "validateOIDCIssuerPrivateKeysUseAlg X i props config validator =
             Some (issuerPrivateKeysAlgDiscovery i (fst ?s2), snd ?s2)"
    using assms by (simp add: validateOIDCIssuerPrivateKeysUseAlg_def Let_def split_def)
  have k: "IssuerPrivateKeys (fst ?s2) =
             (IssuerPrivateKeys config)[i := (IssuerPrivateKeys config ! i)
                \<lparr>Use := resolvedUse props (IssuerPrivateKeys config ! i),
                 Algorithm := resolvedAlgorithm props (IssuerPrivateKeys config ! i)\<rparr>]"
    using assms
    by (simp add: issuerPrivateKeysAlgSwitch_result(1) [OF l1] issuerPrivateKeysUseSwitch_result(1)
        resolvedAlgorithm_def)
  show ?thesis
    unfolding r
    using assms k
    by (simp add: issuerPrivateKeysAlgDiscovery_result issuerPrivateKeysAlgSwitch_result [OF l1]
        issuerPrivateKeysUseSwitch_result resolvedAlgorithm_def)
qed

subsection \<open>The key pair check\<close>

lemma BitLen_power2: "BitLen (2 ^ k) = k + 1"
  using floorlog_power [of 1 2 k] by (simp add: BitLen_def compute_floorlog)

lemma Size_less_256: "Size n < 256 \<longleftrightarrow> BitLen n \<le> 2040"
  by (simp add: Size_def) arith

lemma validateOIDCIssuerPrivateKeyPair_RSA:
  assumes "i < length (IssuerPrivateKeys config)"
    and "Key (IssuerPrivateKeys config ! i) = RSAPrivateKey (Some n)"
  shows "validateOIDCIssuerPrivateKeyPair X i config validator =
           Some (config, validator\<lparr>errors := errors validator
             @ (if BitLen n \<le> 2040 then [rsaKeySizeError i (IssuerPrivateKeys config ! i) n] else [])
             @ certificateChainErrors X i (IssuerPrivateKeys config ! i) (2040 < BitLen n)\<rparr>)"
  using assms
  by (cases "Validate X (CertificateChain (IssuerPrivateKeys config ! i))")
     (auto simp: validateOIDCIssuerPrivateKeyPair_def Let_def Size_less_256 Push_def
        rsaKeySizeError_def certificateChainErrors_def)

lemma validateOIDCIssuerPrivateKeyPair_ECDSA:
  assumes "i < length (IssuerPrivateKeys config)"
    and "Key (IssuerPrivateKeys config ! i) = ECDSAPrivateKey"
  shows "validateOIDCIssuerPrivateKeyPair X i config validator =
           Some (config, validator\<lparr>errors := errors validator
             @ certificateChainErrors X i (IssuerPrivateKeys config ! i) True\<rparr>)"
  using assms
  by (cases "Validate X (CertificateChain (IssuerPrivateKeys config ! i))")
     (auto simp: validateOIDCIssuerPrivateKeyPair_def Let_def Push_def certificateChainErrors_def)

lemma validateOIDCIssuerPrivateKeyPair_other:
  assumes "i < length (IssuerPrivateKeys config)"
    and "\<forall>N. Key (IssuerPrivateKeys config ! i) \<noteq> RSAPrivateKey N"
    and "Key (IssuerPrivateKeys config ! i) \<noteq> ECDSAPrivateKey"
  shows "validateOIDCIssuerPrivateKeyPair X i config validator =
           Some (config, validator\<lparr>errors := errors validator
             @ [keyNotRSAOrECDSAError i (IssuerPrivateKeys config ! i)]
             @ certificateChainErrors X i (IssuerPrivateKeys config ! i) False\<rparr>)"
  using assms
  by (cases "Validate X (CertificateChain (IssuerPrivateKeys config ! i))";
      cases "Key (IssuerPrivateKeys config ! i)")
     (auto simp: validateOIDCIssuerPrivateKeyPair_def Let_def Push_def
        keyNotRSAOrECDSAError_def certificateChainErrors_def)

lemma noRS256Recorded_append:
  "noRS256Recorded (validator\<lparr>errors := errors validator @ es\<rparr>) =
     (noRS256Recorded validator \<or> (\<exists>args. Errorf ''errFmtOIDCProviderPrivateKeysNoRS256'' args \<in> set es))"
  by (auto simp: noRS256Recorded_def)

lemma certificateChainErrors_noRS256:
  "Errorf ''errFmtOIDCProviderPrivateKeysNoRS256'' args \<notin> set (certificateChainErrors X i jwk b)"
  by (auto simp: certificateChainErrors_def split: option.splits)

lemma validateOIDCIssuerPrivateKeyPair_result:
  assumes "i < length (IssuerPrivateKeys config)"
    and "Key (IssuerPrivateKeys config ! i) \<noteq> RSAPrivateKey None"
  shows "\<exists>validator'.
           validateOIDCIssuerPrivateKeyPair X i config validator = Some (config, validator')
           \<and> noRS256Recorded validator' = noRS256Recorded validator"
proof -
  let ?jwk = "IssuerPrivateKeys config ! i"
  consider n where "Key ?jwk = RSAPrivateKey (Some n)"
    | "Key ?jwk = ECDSAPrivateKey"
    | "\<forall>N. Key ?jwk \<noteq> RSAPrivateKey N" "Key ?jwk \<noteq> ECDSAPrivateKey"
    using assms(2) by (cases "Key ?jwk") auto
  then show ?thesis
  proof cases
    case 1
    show ?thesis
      unfolding validateOIDCIssuerPrivateKeyPair_RSA [OF assms(1) 1]
      by (simp add: noRS256Recorded_append certificateChainErrors_noRS256 rsaKeySizeError_def)
  next
    case 2
    show ?thesis
      unfolding validateOIDCIssuerPrivateKeyPair_ECDSA [OF assms(1) 2]
      by (simp add: noRS256Recorded_append certificateChainErrors_noRS256)
  next
    case 3
    show ?thesis
      unfolding validateOIDCIssuerPrivateKeyPair_other [OF assms(1) 3]
      by (simp add: noRS256Recorded_append certificateChainErrors_noRS256 keyNotRSAOrECDSAError_def)
  qed
qed

lemma BitLen_moduli:
  "BitLen modulus1024 = 1024" "BitLen modulus2041 = 2041" "BitLen modulus2048 = 2048"
proof -
  have "BitLen (2 ^ 1023) = 1023 + 1" by (rule BitLen_power2)
  also have "(1023::nat) + 1 = 1024" by simp
  finally show "BitLen modulus1024 = 1024" unfolding modulus1024_def .
  have "BitLen (2 ^ 2040) = 2040 + 1" by (rule BitLen_power2)
  also have "(2040::nat) + 1 = 2041" by simp
  finally show "BitLen modulus2041 = 2041" unfolding modulus2041_def .
  have "BitLen (2 ^ 2047) = 2047 + 1" by (rule BitLen_power2)
  also have "(2047::nat) + 1 = 2048" by simp
  finally show "BitLen modulus2048 = 2048" unfolding modulus2048_def .
qed

text \<open>
  C8, as amended. For every issuer RSA private key, the size error is recorded exactly when the
  modulus is at most 2040 bits long, which is when it fills fewer than 256 bytes; the only
  other errors the function can add are those of the certificate chain. A key that is neither
  an RSA nor an ECDSA private key is rejected with an error.
\<close>

theorem validateOIDCIssuerPrivateKeyPair_key_size:
  assumes "i < length (IssuerPrivateKeys config)"
  shows "(\<forall>n. Key (IssuerPrivateKeys config ! i) = RSAPrivateKey (Some n) \<longrightarrow>
            validateOIDCIssuerPrivateKeyPair X i config validator =
              Some (config, validator\<lparr>errors := errors validator
                @ (if BitLen n \<le> 2040 then [rsaKeySizeError i (IssuerPrivateKeys config ! i) n] else [])
                @ certificateChainErrors X i (IssuerPrivateKeys config ! i) (2040 < BitLen n)\<rparr>))
         \<and> ((\<forall>N. Key (IssuerPrivateKeys config ! i) \<noteq> RSAPrivateKey N)
              \<and> Key (IssuerPrivateKeys config ! i) \<noteq> ECDSAPrivateKey \<longrightarrow>
            validateOIDCIssuerPrivateKeyPair X i config validator =
              Some (config, validator\<lparr>errors := errors validator
                @ [keyNotRSAOrECDSAError i (IssuerPrivateKeys config ! i)]
                @ certificateChainErrors X i (IssuerPrivateKeys config ! i) False\<rparr>))"
  using validateOIDCIssuerPrivateKeyPair_RSA [OF assms]
    validateOIDCIssuerPrivateKeyPair_other [OF assms]
  by blast

theorem validateOIDCIssuerPrivateKeyPair_key_size_witness:
  "validateOIDCIssuerPrivateKeyPair exampleExternals 0 (keysConfig [rsaKeyOf modulus1024]) emptyValidator =
     Some (keysConfig [rsaKeyOf modulus1024],
           \<lparr>errors = [Errorf ''errFmtOIDCProviderPrivateKeysRSAKeyLessThan2048Bits''
                        [Num 1, Str ''rsa1'', Num 1024]],
            warnings = []\<rparr>)
   \<and> validateOIDCIssuerPrivateKeyPair exampleExternals 0 (keysConfig [rsaKeyOf modulus2048]) emptyValidator =
       Some (keysConfig [rsaKeyOf modulus2048], emptyValidator)
   \<and> validateOIDCIssuerPrivateKeyPair exampleExternals 0
         (keysConfig [(rsaKeyOf 0)\<lparr>Key := OtherKey ''ed25519.PrivateKey''\<rparr>]) emptyValidator =
       Some (keysConfig [(rsaKeyOf 0)\<lparr>Key := OtherKey ''ed25519.PrivateKey''\<rparr>],
             \<lparr>errors = [Errorf ''errFmtOIDCProviderPrivateKeysKeyNotRSAOrECDSA''
                          [Num 1, Str ''rsa1'', KeyArg (OtherKey ''ed25519.PrivateKey'')]],
              warnings = []\<rparr>)"
proof -
  have a: "validateOIDCIssuerPrivateKeyPair exampleExternals 0 (keysConfig [rsaKeyOf modulus1024]) emptyValidator =
     Some (keysConfig [rsaKeyOf modulus1024],
           \<lparr>errors = [Errorf ''errFmtOIDCProviderPrivateKeysRSAKeyLessThan2048Bits''
                        [Num 1, Str ''rsa1'', Num 1024]],
            warnings = []\<rparr>)"
    using validateOIDCIssuerPrivateKeyPair_key_size
      [of 0 "keysConfig [rsaKeyOf modulus1024]" exampleExternals emptyValidator]
    by (simp add: keysConfig_def BitLen_moduli rsaKeySizeError_def Size_def emptyValidator_def
        rsaKeyOf_def certificateChainErrors_def exampleExternals_def)
  have b: "validateOIDCIssuerPrivateKeyPair exampleExternals 0 (keysConfig [rsaKeyOf modulus2048]) emptyValidator =
       Some (keysConfig [rsaKeyOf modulus2048], emptyValidator)"
    using validateOIDCIssuerPrivateKeyPair_key_size
      [of 0 "keysConfig [rsaKeyOf modulus2048]" exampleExternals emptyValidator]
    by (simp add: keysConfig_def BitLen_moduli emptyValidator_def rsaKeyOf_def
        certificateChainErrors_def exampleExternals_def)
  have c: "validateOIDCIssuerPrivateKeyPair exampleExternals 0
         (keysConfig [(rsaKeyOf 0)\<lparr>Key := OtherKey ''ed25519.PrivateKey''\<rparr>]) emptyValidator =
       Some (keysConfig [(rsaKeyOf 0)\<lparr>Key := OtherKey ''ed25519.PrivateKey''\<rparr>],
             \<lparr>errors = [Errorf ''errFmtOIDCProviderPrivateKeysKeyNotRSAOrECDSA''
                          [Num 1, Str ''rsa1'', KeyArg (OtherKey ''ed25519.PrivateKey'')]],
              warnings = []\<rparr>)"
    using validateOIDCIssuerPrivateKeyPair_key_size
      [of 0 "keysConfig [(rsaKeyOf 0)\<lparr>Key := OtherKey ''ed25519.PrivateKey''\<rparr>]" exampleExternals emptyValidator]
    by (simp add: keysConfig_def keyNotRSAOrECDSAError_def emptyValidator_def rsaKeyOf_def
        certificateChainErrors_def exampleExternals_def)
  from a b c show ?thesis by blast
qed

text \<open>
  The claim as stated fails: an RSA key whose modulus has 2041 bits is smaller than 2048 bits,
  and the function records no size error for it, since the modulus fills 256 bytes.
\<close>

theorem validateOIDCIssuerPrivateKeyPair_2041_bits_counterexample:
  "BitLen modulus2041 = 2041
   \<and> validateOIDCIssuerPrivateKeyPair exampleExternals 0 (keysConfig [rsaKeyOf modulus2041]) emptyValidator =
       Some (keysConfig [rsaKeyOf modulus2041], emptyValidator)"
  by (simp add: BitLen_moduli validateOIDCIssuerPrivateKeyPair_def keysConfig_def rsaKeyOf_def
      Size_def exampleExternals_def)

subsection \<open>Issuer private keys: the loop\<close>

lemma addAlgorithm_empty: "addAlgorithm algs [] = algs"
  by (simp add: addAlgorithm_def)

lemma issuerPrivateKeysIterationRest_result:
  assumes "i < length (IssuerPrivateKeys config)"
    and "i < length (ResponseObjectSigningKeyIDs (Disc config))"
    and "Key (IssuerPrivateKeys config ! i) \<noteq> RSAPrivateKey None"
  shows "\<exists>config' validator'.
           issuerPrivateKeysIterationRest X i config validator = Some (config', validator')
           \<and> IssuerPrivateKeys config' =
               (IssuerPrivateKeys config)[i := keyWithProperties X (IssuerPrivateKeys config ! i)]
           \<and> ResponseObjectSigningKeyIDs (Disc config') =
               (ResponseObjectSigningKeyIDs (Disc config))[i := KeyID (IssuerPrivateKeys config ! i)]
           \<and> ResponseObjectSigningAlgs (Disc config') =
               addAlgorithm (ResponseObjectSigningAlgs (Disc config))
                 (algorithmWithProperties X (IssuerPrivateKeys config ! i))
           \<and> noRS256Recorded validator' = noRS256Recorded validator"
proof -
  let ?jwk = "IssuerPrivateKeys config ! i"
  let ?config1 = "updDisc (\<lambda>d. d\<lparr>ResponseObjectSigningKeyIDs :=
                     (ResponseObjectSigningKeyIDs d)[i := KeyID ?jwk]\<rparr>) config"
  define validator1 where "validator1 =
    (if KeyID ?jwk \<noteq> [] \<and> IsStringInSlice (KeyID ?jwk) (ResponseObjectSigningKeyIDs (Disc config)) then
       Push validator (Errorf ''errFmtOIDCProviderPrivateKeysAttributeNotUnique''
         [Num (i + 1), Str (KeyID ?jwk), Name ''attrOIDCKeyID''])
     else validator)"
  define validator2 where "validator2 =
    (if \<not> reOpenIDConnectKIDMatchString X (KeyID ?jwk) then
       Push validator1 (Errorf ''errFmtOIDCProviderPrivateKeysKeyIDNotValid''
         [Num (i + 1), Str (KeyID ?jwk)])
     else validator1)"
  have v2: "noRS256Recorded validator2 = noRS256Recorded validator"
    by (simp add: validator2_def validator1_def noRS256Recorded_Push)
  have c1: "IssuerPrivateKeys ?config1 = IssuerPrivateKeys config"
    "ResponseObjectSigningKeyIDs (Disc ?config1) =
       (ResponseObjectSigningKeyIDs (Disc config))[i := KeyID ?jwk]"
    "ResponseObjectSigningAlgs (Disc ?config1) = ResponseObjectSigningAlgs (Disc config)"
    by (simp_all add: updDisc_def)
  have unfold: "issuerPrivateKeysIterationRest X i config validator =
      (case schemaJWKGetProperties X ?jwk of
         Inl err \<Rightarrow>
           Some (?config1, Push validator2 (Errorf ''errFmtOIDCProviderPrivateKeysProperties''
                   [Num (i + 1), Str (KeyID ?jwk), Str err]))
       | Inr props \<Rightarrow>
           (case validateOIDCIssuerPrivateKeysUseAlg X i props ?config1 validator2 of
              None \<Rightarrow> None
            | Some (config, validator) \<Rightarrow> validateOIDCIssuerPrivateKeyPair X i config validator))"
    unfolding issuerPrivateKeysIterationRest_def Let_def validator1_def validator2_def
    using assms(2) by (simp split del: if_split)
  show ?thesis
  proof (cases "schemaJWKGetProperties X ?jwk")
    case (Inl err)
    with assms(1) show ?thesis
      unfolding unfold
      by (simp add: c1 keyWithProperties_def algorithmWithProperties_def addAlgorithm_empty
          noRS256Recorded_Push v2)
  next
    case (Inr props)
    from assms(1) have l1: "i < length (IssuerPrivateKeys ?config1)" by (simp add: c1)
    from validateOIDCIssuerPrivateKeysUseAlg_result [OF l1, of X props validator2]
    obtain config2 validator3 where
      u: "validateOIDCIssuerPrivateKeysUseAlg X i props ?config1 validator2 = Some (config2, validator3)"
      and k2: "IssuerPrivateKeys config2 =
                 (IssuerPrivateKeys config)[i := ?jwk\<lparr>Use := resolvedUse props ?jwk,
                    Algorithm := resolvedAlgorithm props ?jwk\<rparr>]"
      and i2: "ResponseObjectSigningKeyIDs (Disc config2) =
                 (ResponseObjectSigningKeyIDs (Disc config))[i := KeyID ?jwk]"
      and a2: "ResponseObjectSigningAlgs (Disc config2) =
                 addAlgorithm (ResponseObjectSigningAlgs (Disc config)) (resolvedAlgorithm props ?jwk)"
      and v3: "noRS256Recorded validator3 = noRS256Recorded validator2"
      by (auto simp: c1)
    from assms(1) k2 have l2: "i < length (IssuerPrivateKeys config2)" by simp
    from assms(1,3) k2 have key2: "Key (IssuerPrivateKeys config2 ! i) \<noteq> RSAPrivateKey None" by simp
    from validateOIDCIssuerPrivateKeyPair_result [OF l2 key2, of X validator3]
    obtain validator' where
      p: "validateOIDCIssuerPrivateKeyPair X i config2 validator3 = Some (config2, validator')"
      and v': "noRS256Recorded validator' = noRS256Recorded validator3"
      by blast
    show ?thesis
      unfolding unfold
      using Inr u p k2 i2 a2 v' v3 v2
      by (simp add: keyWithProperties_def algorithmWithProperties_def)
  qed
qed

lemma issuerPrivateKeysIteration_result:
  assumes "i < length (IssuerPrivateKeys config)"
    and "i < length (ResponseObjectSigningKeyIDs (Disc config))"
  shows "\<exists>config' validator'.
           issuerPrivateKeysIteration X i config validator = Some (config', validator')
           \<and> IssuerPrivateKeys config' =
               (IssuerPrivateKeys config)[i := keyAfter X (IssuerPrivateKeys config ! i)]
           \<and> ResponseObjectSigningKeyIDs (Disc config') =
               (if keySkipped X (IssuerPrivateKeys config ! i) then ResponseObjectSigningKeyIDs (Disc config)
                else (ResponseObjectSigningKeyIDs (Disc config))
                       [i := resolvedKeyID X (IssuerPrivateKeys config ! i)])
           \<and> ResponseObjectSigningAlgs (Disc config') =
               addAlgorithm (ResponseObjectSigningAlgs (Disc config))
                 (keyAlgorithmOffered X (IssuerPrivateKeys config ! i))
           \<and> noRS256Recorded validator' = noRS256Recorded validator"
proof -
  let ?jwk = "IssuerPrivateKeys config ! i"
  consider (nil) "Key ?jwk = RSAPrivateKey None"
    | (thumbErr) e where "Key ?jwk \<noteq> RSAPrivateKey None" "KeyID ?jwk = []"
        "snd (jwkCalculateThumbprint X (Key ?jwk)) = Some e"
    | (thumbOk) "Key ?jwk \<noteq> RSAPrivateKey None" "KeyID ?jwk = []"
        "snd (jwkCalculateThumbprint X (Key ?jwk)) = None"
    | (given) "Key ?jwk \<noteq> RSAPrivateKey None" "KeyID ?jwk \<noteq> []"
    by (cases "snd (jwkCalculateThumbprint X (Key ?jwk))") auto
  then show ?thesis
  proof cases
    case nil
    then show ?thesis
      by (simp add: issuerPrivateKeysIteration_def Let_def keyAfter_def keySkipped_def
          keyAlgorithmOffered_def addAlgorithm_empty noRS256Recorded_Push)
  next
    case thumbErr
    then show ?thesis
      using assms(1)
      by (simp add: issuerPrivateKeysIteration_def Let_def split_def keyAfter_def keySkipped_def
          keyAlgorithmOffered_def resolvedKeyID_def addAlgorithm_empty noRS256Recorded_Push updKey_def)
  next
    case thumbOk
    let ?kid = "fst (jwkCalculateThumbprint X (Key ?jwk))"
    let ?config1 = "updKey i (\<lambda>k. k\<lparr>KeyID := ?kid\<rparr>) config"
    from thumbOk have unfold: "issuerPrivateKeysIteration X i config validator =
        issuerPrivateKeysIterationRest X i ?config1 validator"
      by (simp add: issuerPrivateKeysIteration_def Let_def split_def)
    from assms have c1: "i < length (IssuerPrivateKeys ?config1)"
      "i < length (ResponseObjectSigningKeyIDs (Disc ?config1))"
      "IssuerPrivateKeys ?config1 ! i = ?jwk\<lparr>KeyID := ?kid\<rparr>"
      "IssuerPrivateKeys ?config1 = (IssuerPrivateKeys config)[i := ?jwk\<lparr>KeyID := ?kid\<rparr>]"
      "Disc ?config1 = Disc config"
      by (simp_all add: updKey_def)
    from thumbOk(1) c1(3) have k1: "Key (IssuerPrivateKeys ?config1 ! i) \<noteq> RSAPrivateKey None"
      by simp
    from issuerPrivateKeysIterationRest_result [OF c1(1) c1(2) k1, of X validator] thumbOk assms(1)
    show ?thesis
      unfolding unfold
      by (simp add: c1 keyAfter_def keySkipped_def keyAlgorithmOffered_def resolvedKeyID_def)
  next
    case given
    define validator1 where "validator1 =
      (if length (KeyID ?jwk) > 100 then
         Push validator (Errorf ''errFmtOIDCProviderPrivateKeysKeyIDLength''
           [Num (i + 1), Str (KeyID ?jwk)])
       else validator)"
    from given have unfold: "issuerPrivateKeysIteration X i config validator =
        issuerPrivateKeysIterationRest X i config validator1"
      by (simp add: issuerPrivateKeysIteration_def Let_def validator1_def)
    have v1: "noRS256Recorded validator1 = noRS256Recorded validator"
      by (simp add: validator1_def noRS256Recorded_Push)
    from issuerPrivateKeysIterationRest_result [OF assms given(1), of X validator1] given v1
    show ?thesis
      unfolding unfold
      by (simp add: keyAfter_def keySkipped_def keyAlgorithmOffered_def resolvedKeyID_def)
  qed
qed

lemma issuerPrivateKeysLoop_result:
  assumes "length (ResponseObjectSigningKeyIDs (Disc config)) = length (IssuerPrivateKeys config)"
  shows "\<exists>config' validator'.
           issuerPrivateKeysLoop X i config validator = Some (config', validator')
           \<and> length (IssuerPrivateKeys config') = length (IssuerPrivateKeys config)
           \<and> (\<forall>j < length (IssuerPrivateKeys config).
                 IssuerPrivateKeys config' ! j =
                   (if i \<le> j then keyAfter X (IssuerPrivateKeys config ! j)
                    else IssuerPrivateKeys config ! j))
           \<and> length (ResponseObjectSigningKeyIDs (Disc config')) =
               length (ResponseObjectSigningKeyIDs (Disc config))
           \<and> (\<forall>j < length (IssuerPrivateKeys config).
                 ResponseObjectSigningKeyIDs (Disc config') ! j =
                   (if i \<le> j \<and> \<not> keySkipped X (IssuerPrivateKeys config ! j)
                    then resolvedKeyID X (IssuerPrivateKeys config ! j)
                    else ResponseObjectSigningKeyIDs (Disc config) ! j))
           \<and> ResponseObjectSigningAlgs (Disc config') =
               foldl (\<lambda>algs jwk. addAlgorithm algs (keyAlgorithmOffered X jwk))
                 (ResponseObjectSigningAlgs (Disc config)) (drop i (IssuerPrivateKeys config))
           \<and> noRS256Recorded validator' = noRS256Recorded validator"
  using assms
proof (induction X i config validator rule: issuerPrivateKeysLoop.induct)
  case (1 X i config validator)
  let ?keys = "IssuerPrivateKeys config"
  let ?ids = "ResponseObjectSigningKeyIDs (Disc config)"
  show ?case
  proof (cases "i < length ?keys")
    case False
    then show ?thesis
      by (subst issuerPrivateKeysLoop.simps) simp
  next
    case True
    with "1.prems" have ilen: "i < length ?ids" by simp
    from issuerPrivateKeysIteration_result [OF True ilen, of X validator]
    obtain config1 validator1 where
      it: "issuerPrivateKeysIteration X i config validator = Some (config1, validator1)"
      and k1: "IssuerPrivateKeys config1 = ?keys[i := keyAfter X (?keys ! i)]"
      and i1: "ResponseObjectSigningKeyIDs (Disc config1) =
                 (if keySkipped X (?keys ! i) then ?ids else ?ids[i := resolvedKeyID X (?keys ! i)])"
      and a1: "ResponseObjectSigningAlgs (Disc config1) =
                 addAlgorithm (ResponseObjectSigningAlgs (Disc config)) (keyAlgorithmOffered X (?keys ! i))"
      and v1: "noRS256Recorded validator1 = noRS256Recorded validator"
      by blast
    from k1 i1 "1.prems" have len1:
      "length (ResponseObjectSigningKeyIDs (Disc config1)) = length (IssuerPrivateKeys config1)"
      by simp
    from "1.IH" [OF True it refl len1]
    obtain config' validator' where
      r: "issuerPrivateKeysLoop X (i + 1) config1 validator1 = Some (config', validator')"
      and kl: "length (IssuerPrivateKeys config') = length (IssuerPrivateKeys config1)"
      and k: "\<forall>j < length (IssuerPrivateKeys config1).
                 IssuerPrivateKeys config' ! j =
                   (if i + 1 \<le> j then keyAfter X (IssuerPrivateKeys config1 ! j)
                    else IssuerPrivateKeys config1 ! j)"
      and il: "length (ResponseObjectSigningKeyIDs (Disc config')) =
                 length (ResponseObjectSigningKeyIDs (Disc config1))"
      and i': "\<forall>j < length (IssuerPrivateKeys config1).
                 ResponseObjectSigningKeyIDs (Disc config') ! j =
                   (if i + 1 \<le> j \<and> \<not> keySkipped X (IssuerPrivateKeys config1 ! j)
                    then resolvedKeyID X (IssuerPrivateKeys config1 ! j)
                    else ResponseObjectSigningKeyIDs (Disc config1) ! j)"
      and a: "ResponseObjectSigningAlgs (Disc config') =
                foldl (\<lambda>algs jwk. addAlgorithm algs (keyAlgorithmOffered X jwk))
                  (ResponseObjectSigningAlgs (Disc config1)) (drop (i + 1) (IssuerPrivateKeys config1))"
      and v: "noRS256Recorded validator' = noRS256Recorded validator1"
      by blast
    have loop: "issuerPrivateKeysLoop X i config validator = Some (config', validator')"
      using True it r by (subst issuerPrivateKeysLoop.simps) simp
    from k1 have len1: "length (IssuerPrivateKeys config1) = length ?keys" by simp
    have keys': "\<forall>j < length ?keys.
                 IssuerPrivateKeys config' ! j =
                   (if i \<le> j then keyAfter X (?keys ! j) else ?keys ! j)"
    proof (intro allI impI)
      fix j assume j: "j < length ?keys"
      with len1 have j1: "j < length (IssuerPrivateKeys config1)" by simp
      note e = k [rule_format, OF j1]
      consider "j < i" | "j = i" | "i < j" by arith
      then show "IssuerPrivateKeys config' ! j =
          (if i \<le> j then keyAfter X (?keys ! j) else ?keys ! j)"
      proof cases
        case 1
        with e k1 show ?thesis by simp
      next
        case 2
        with e k1 True show ?thesis by simp
      next
        case 3
        with e k1 show ?thesis by simp
      qed
    qed
    have ids': "\<forall>j < length ?keys.
                 ResponseObjectSigningKeyIDs (Disc config') ! j =
                   (if i \<le> j \<and> \<not> keySkipped X (?keys ! j) then resolvedKeyID X (?keys ! j)
                    else ?ids ! j)"
    proof (intro allI impI)
      fix j assume j: "j < length ?keys"
      with len1 have j1: "j < length (IssuerPrivateKeys config1)" by simp
      note e = i' [rule_format, OF j1]
      consider "j < i" | "j = i" | "i < j" by arith
      then show "ResponseObjectSigningKeyIDs (Disc config') ! j =
          (if i \<le> j \<and> \<not> keySkipped X (?keys ! j) then resolvedKeyID X (?keys ! j)
           else ?ids ! j)"
      proof cases
        case 1
        with e i1 show ?thesis by simp
      next
        case 2
        with e i1 ilen show ?thesis by simp
      next
        case 3
        with e i1 k1 show ?thesis by simp
      qed
    qed
    have "drop i ?keys = ?keys ! i # drop (i + 1) ?keys"
      using True by (simp add: Cons_nth_drop_Suc)
    moreover have "drop (i + 1) (IssuerPrivateKeys config1) = drop (i + 1) ?keys"
      by (simp add: k1)
    ultimately have algs': "ResponseObjectSigningAlgs (Disc config') =
        foldl (\<lambda>algs jwk. addAlgorithm algs (keyAlgorithmOffered X jwk))
          (ResponseObjectSigningAlgs (Disc config)) (drop i ?keys)"
      using a a1 by simp
    from kl k1 have kl': "length (IssuerPrivateKeys config') = length ?keys" by simp
    from il i1 have il': "length (ResponseObjectSigningKeyIDs (Disc config')) = length ?ids" by simp
    from loop kl' keys' il' ids' algs' v v1 show ?thesis by simp
  qed
qed

lemma validateOIDCIssuerPrivateKeys_result:
  "\<exists>config' validator'.
     validateOIDCIssuerPrivateKeys X config validator = Some (config', validator')
     \<and> IssuerPrivateKeys config' = map (keyAfter X) (IssuerPrivateKeys config)
     \<and> ResponseObjectSigningKeyIDs (Disc config') = map (keyIDEntry X) (IssuerPrivateKeys config)
     \<and> ResponseObjectSigningAlgs (Disc config') =
         foldl (\<lambda>algs jwk. addAlgorithm algs (keyAlgorithmOffered X jwk))
           (ResponseObjectSigningAlgs (Disc config)) (IssuerPrivateKeys config)
     \<and> (noRS256Recorded validator' \<longleftrightarrow>
          noRS256Recorded validator
          \<or> (ResponseObjectSigningAlgs (Disc config') \<noteq> []
              \<and> SigningAlgRSAUsingSHA256 X \<notin> set (ResponseObjectSigningAlgs (Disc config'))))"
proof -
  let ?keys = "IssuerPrivateKeys config"
  let ?config0 = "updDisc (\<lambda>d. d\<lparr>ResponseObjectSigningKeyIDs := replicate (length ?keys) [],
                                DefaultKeyIDs := Map.empty\<rparr>) config"
  have c0: "IssuerPrivateKeys ?config0 = ?keys"
    "ResponseObjectSigningKeyIDs (Disc ?config0) = replicate (length ?keys) []"
    "ResponseObjectSigningAlgs (Disc ?config0) = ResponseObjectSigningAlgs (Disc config)"
    by (simp_all add: updDisc_def)
  then have len0: "length (ResponseObjectSigningKeyIDs (Disc ?config0)) = length (IssuerPrivateKeys ?config0)"
    by simp
  from issuerPrivateKeysLoop_result [OF len0, of X 0 validator]
  obtain config1 validator1 where
    loop: "issuerPrivateKeysLoop X 0 ?config0 validator = Some (config1, validator1)"
    and kl: "length (IssuerPrivateKeys config1) = length ?keys"
    and k: "\<forall>j < length ?keys. IssuerPrivateKeys config1 ! j = keyAfter X (?keys ! j)"
    and il: "length (ResponseObjectSigningKeyIDs (Disc config1)) = length ?keys"
    and i: "\<forall>j < length ?keys.
              ResponseObjectSigningKeyIDs (Disc config1) ! j =
                (if \<not> keySkipped X (?keys ! j) then resolvedKeyID X (?keys ! j)
                 else replicate (length ?keys) [] ! j)"
    and a: "ResponseObjectSigningAlgs (Disc config1) =
              foldl (\<lambda>algs jwk. addAlgorithm algs (keyAlgorithmOffered X jwk))
                (ResponseObjectSigningAlgs (Disc config)) ?keys"
    and v: "noRS256Recorded validator1 = noRS256Recorded validator"
    by (auto simp: c0)
  have keys1: "IssuerPrivateKeys config1 = map (keyAfter X) ?keys"
    using kl k by (auto intro: nth_equalityI)
  have ids1: "ResponseObjectSigningKeyIDs (Disc config1) = map (keyIDEntry X) ?keys"
    using il i by (auto intro!: nth_equalityI simp: keyIDEntry_def)
  define validator' where "validator' =
    (if length (ResponseObjectSigningAlgs (Disc config1)) \<noteq> 0
        \<and> \<not> IsStringInSlice (SigningAlgRSAUsingSHA256 X) (ResponseObjectSigningAlgs (Disc config1)) then
       Push validator1 (Errorf ''errFmtOIDCProviderPrivateKeysNoRS256''
         [Str (SigningAlgRSAUsingSHA256 X), StrJoinAnd (ResponseObjectSigningAlgs (Disc config1))])
     else validator1)"
  have r: "validateOIDCIssuerPrivateKeys X config validator = Some (config1, validator')"
    using loop by (simp add: validateOIDCIssuerPrivateKeys_def Let_def validator'_def)
  have "noRS256Recorded validator' \<longleftrightarrow>
          noRS256Recorded validator
          \<or> (ResponseObjectSigningAlgs (Disc config1) \<noteq> []
              \<and> SigningAlgRSAUsingSHA256 X \<notin> set (ResponseObjectSigningAlgs (Disc config1)))"
    by (simp add: validator'_def noRS256Recorded_Push v IsStringInSlice_def)
  with r keys1 ids1 a show ?thesis by blast
qed

text \<open>
  C7. For every key set, validation of the issuer keys returns, and once all keys are processed
  the error of the missing RS256 key is recorded if and only if the discovered algorithm list
  is not empty and does not contain RS256. The validator is taken without such an error at the
  start, as it is when the validation of the issuer keys begins.
\<close>

theorem validateOIDCIssuerPrivateKeys_no_RS256:
  assumes "\<not> noRS256Recorded validator"
  shows "\<exists>config' validator'.
           validateOIDCIssuerPrivateKeys X config validator = Some (config', validator')
           \<and> (noRS256Recorded validator' \<longleftrightarrow>
                ResponseObjectSigningAlgs (Disc config') \<noteq> []
                \<and> SigningAlgRSAUsingSHA256 X \<notin> set (ResponseObjectSigningAlgs (Disc config')))"
  using validateOIDCIssuerPrivateKeys_result [of X config validator] assms by auto

lemma exampleKeyES256_offered:
  "keyAlgorithmOffered exampleExternals exampleKeyES256 = ''ES256''"
  "\<not> keySkipped exampleExternals exampleKeyES256"
  "resolvedKeyID exampleExternals exampleKeyES256 = ''k1''"
  by (simp_all add: keyAlgorithmOffered_def keySkipped_def resolvedKeyID_def algorithmWithProperties_def
      resolvedAlgorithm_def exampleKeyES256_def exampleExternals_def)

lemma exampleKeyRS256_offered:
  "keyAlgorithmOffered exampleExternals exampleKeyRS256 = ''RS256''"
  "\<not> keySkipped exampleExternals exampleKeyRS256"
  "resolvedKeyID exampleExternals exampleKeyRS256 = ''thumb1''"
  by (simp_all add: keyAlgorithmOffered_def keySkipped_def resolvedKeyID_def algorithmWithProperties_def
      resolvedAlgorithm_def exampleKeyRS256_def exampleExternals_def)

theorem validateOIDCIssuerPrivateKeys_no_RS256_witness:
  "\<exists>config' validator'.
     validateOIDCIssuerPrivateKeys exampleExternals (keysConfig [exampleKeyES256]) emptyValidator =
       Some (config', validator')
     \<and> ResponseObjectSigningAlgs (Disc config') = [''ES256'']
     \<and> noRS256Recorded validator'"
proof -
  have v: "\<not> noRS256Recorded emptyValidator"
    by (simp add: noRS256Recorded_def emptyValidator_def)
  from validateOIDCIssuerPrivateKeys_result [of exampleExternals "keysConfig [exampleKeyES256]" emptyValidator]
  obtain config1 validator1 where
    r: "validateOIDCIssuerPrivateKeys exampleExternals (keysConfig [exampleKeyES256]) emptyValidator =
          Some (config1, validator1)"
    and a: "ResponseObjectSigningAlgs (Disc config1) = [''ES256'']"
    by (auto simp: keysConfig_def emptyDiscovery_def exampleKeyES256_offered addAlgorithm_def)
  from validateOIDCIssuerPrivateKeys_no_RS256 [OF v, of exampleExternals "keysConfig [exampleKeyES256]"] r a
  have "noRS256Recorded validator1"
    by (simp add: exampleExternals_def)
  with r a show ?thesis by blast
qed

subsection \<open>Issuer private keys: the discovery lists of a valid key set\<close>

lemma addAlgorithm_distinct: "distinct algs \<Longrightarrow> distinct (addAlgorithm algs alg)"
  by (simp add: addAlgorithm_def)

lemma foldl_addAlgorithm_distinct:
  "distinct algs \<Longrightarrow> distinct (foldl (\<lambda>algs jwk. addAlgorithm algs (f jwk)) algs keys)"
  by (induction keys arbitrary: algs) (simp_all add: addAlgorithm_distinct)

lemma foldl_addAlgorithm_mono:
  "alg \<in> set algs \<Longrightarrow> alg \<in> set (foldl (\<lambda>algs jwk. addAlgorithm algs (f jwk)) algs keys)"
  by (induction keys arbitrary: algs) (simp_all add: addAlgorithm_def)

lemma foldl_addAlgorithm_member:
  "jwk \<in> set keys \<Longrightarrow> f jwk \<noteq> [] \<Longrightarrow>
     f jwk \<in> set (foldl (\<lambda>algs jwk. addAlgorithm algs (f jwk)) algs keys)"
proof (induction keys arbitrary: algs)
  case Nil
  then show ?case by simp
next
  case (Cons k keys)
  show ?case
  proof (cases "jwk = k")
    case True
    with Cons.prems(2) have "f jwk \<in> set (addAlgorithm algs (f k))"
      by (simp add: addAlgorithm_def)
    then show ?thesis by (simp add: foldl_addAlgorithm_mono)
  next
    case False
    with Cons show ?thesis by simp
  qed
qed

lemma foldl_addAlgorithm_known:
  "\<forall>jwk \<in> set keys. f jwk = [] \<or> f jwk \<in> set algs \<Longrightarrow>
     foldl (\<lambda>algs jwk. addAlgorithm algs (f jwk)) algs keys = algs"
  by (induction keys arbitrary: algs) (auto simp: addAlgorithm_def)

lemma wellFormedKey_after:
  assumes "wellFormedKey X jwk"
  shows "keyIDEntry X (keyAfter X jwk) = keyIDEntry X jwk"
    and "keyAlgorithmOffered X (keyAfter X jwk) = []
         \<or> keyAlgorithmOffered X (keyAfter X jwk) = keyAlgorithmOffered X jwk"
proof -
  let ?jwk1 = "jwk\<lparr>KeyID := resolvedKeyID X jwk\<rparr>"
  from assms have ns: "\<not> keySkipped X jwk" and off: "algorithmWithProperties X ?jwk1 \<noteq> []"
    by (auto simp: wellFormedKey_def keyAlgorithmOffered_def)
  from off obtain props where p: "schemaJWKGetProperties X ?jwk1 = Inr props"
    and ra: "resolvedAlgorithm props ?jwk1 \<noteq> []"
    by (cases "schemaJWKGetProperties X ?jwk1") (auto simp: algorithmWithProperties_def)
  let ?jwk2 = "?jwk1\<lparr>Use := resolvedUse props ?jwk1, Algorithm := resolvedAlgorithm props ?jwk1\<rparr>"
  from ns p have after: "keyAfter X jwk = ?jwk2"
    by (auto simp: keyAfter_def keyWithProperties_def keySkipped_def)
  from ns have ns2: "\<not> keySkipped X ?jwk2"
    by (auto simp: keySkipped_def resolvedKeyID_def split: if_splits)
  from ns have rk2: "resolvedKeyID X ?jwk2 = resolvedKeyID X jwk"
    by (auto simp: resolvedKeyID_def)
  from ns ns2 rk2 show "keyIDEntry X (keyAfter X jwk) = keyIDEntry X jwk"
    by (simp add: after keyIDEntry_def)
  have same: "?jwk2\<lparr>KeyID := resolvedKeyID X ?jwk2\<rparr> = ?jwk2"
    by (simp add: rk2)
  have "algorithmWithProperties X ?jwk2 = [] \<or> algorithmWithProperties X ?jwk2 = resolvedAlgorithm props ?jwk1"
    using ra by (cases "schemaJWKGetProperties X ?jwk2") (auto simp: algorithmWithProperties_def resolvedAlgorithm_def)
  moreover have "keyAlgorithmOffered X ?jwk2 = algorithmWithProperties X ?jwk2"
    using ns2 same by (simp add: keyAlgorithmOffered_def)
  moreover have "keyAlgorithmOffered X jwk = resolvedAlgorithm props ?jwk1"
    using ns p by (simp add: keyAlgorithmOffered_def algorithmWithProperties_def)
  ultimately show "keyAlgorithmOffered X (keyAfter X jwk) = []
         \<or> keyAlgorithmOffered X (keyAfter X jwk) = keyAlgorithmOffered X jwk"
    by (simp add: after)
qed

text \<open>
  C5. For every valid key set, with the discovery algorithm list free of duplicates at the
  start (it is empty in a fresh configuration): validation of the issuer keys returns, the
  discovery algorithm list holds each algorithm at most once, the discovery key-ID list has no
  duplicates, and validating the resulting configuration again leaves both lists as they are.
\<close>

theorem validateOIDCIssuerPrivateKeys_discovery_distinct_idempotent:
  assumes "validKeySet X (IssuerPrivateKeys config)"
    and "distinct (ResponseObjectSigningAlgs (Disc config))"
  shows "\<exists>config' validator'.
           validateOIDCIssuerPrivateKeys X config validator = Some (config', validator')
           \<and> distinct (ResponseObjectSigningAlgs (Disc config'))
           \<and> distinct (ResponseObjectSigningKeyIDs (Disc config'))
           \<and> (\<exists>config'' validator''.
                 validateOIDCIssuerPrivateKeys X config' validator' = Some (config'', validator'')
                 \<and> ResponseObjectSigningAlgs (Disc config'') = ResponseObjectSigningAlgs (Disc config')
                 \<and> ResponseObjectSigningKeyIDs (Disc config'') = ResponseObjectSigningKeyIDs (Disc config'))"
proof -
  let ?keys = "IssuerPrivateKeys config"
  let ?offered = "keyAlgorithmOffered X"
  from assms(1) have wf: "\<forall>jwk \<in> set ?keys. wellFormedKey X jwk"
    and d: "distinct (map (resolvedKeyID X) ?keys)"
    by (simp_all add: validKeySet_def list_all_iff)
  from validateOIDCIssuerPrivateKeys_result [of X config validator]
  obtain config1 validator1 where
    r1: "validateOIDCIssuerPrivateKeys X config validator = Some (config1, validator1)"
    and k1: "IssuerPrivateKeys config1 = map (keyAfter X) ?keys"
    and i1: "ResponseObjectSigningKeyIDs (Disc config1) = map (keyIDEntry X) ?keys"
    and a1: "ResponseObjectSigningAlgs (Disc config1) =
               foldl (\<lambda>algs jwk. addAlgorithm algs (?offered jwk))
                 (ResponseObjectSigningAlgs (Disc config)) ?keys"
    by blast
  from validateOIDCIssuerPrivateKeys_result [of X config1 validator1]
  obtain config2 validator2 where
    r2: "validateOIDCIssuerPrivateKeys X config1 validator1 = Some (config2, validator2)"
    and i2: "ResponseObjectSigningKeyIDs (Disc config2) = map (keyIDEntry X) (IssuerPrivateKeys config1)"
    and a2: "ResponseObjectSigningAlgs (Disc config2) =
               foldl (\<lambda>algs jwk. addAlgorithm algs (?offered jwk))
                 (ResponseObjectSigningAlgs (Disc config1)) (IssuerPrivateKeys config1)"
    by blast
  have da: "distinct (ResponseObjectSigningAlgs (Disc config1))"
    unfolding a1 using assms(2) by (rule foldl_addAlgorithm_distinct)
  have "map (keyIDEntry X) ?keys = map (resolvedKeyID X) ?keys"
    using wf by (simp add: keyIDEntry_def wellFormedKey_def)
  with d i1 have di: "distinct (ResponseObjectSigningKeyIDs (Disc config1))"
    by simp
  have "map (keyIDEntry X) (map (keyAfter X) ?keys) = map (keyIDEntry X) ?keys"
    using wf by (simp add: wellFormedKey_after(1))
  with i1 i2 k1 have ids: "ResponseObjectSigningKeyIDs (Disc config2) = ResponseObjectSigningKeyIDs (Disc config1)"
    by simp
  have known: "\<forall>jwk \<in> set (map (keyAfter X) ?keys).
                 ?offered jwk = [] \<or> ?offered jwk \<in> set (ResponseObjectSigningAlgs (Disc config1))"
  proof
    fix jwk' assume "jwk' \<in> set (map (keyAfter X) ?keys)"
    then obtain jwk where jwk: "jwk \<in> set ?keys" and after: "jwk' = keyAfter X jwk"
      by auto
    from wf jwk have w: "wellFormedKey X jwk" by blast
    then have off: "?offered jwk \<noteq> []" by (simp add: wellFormedKey_def)
    from foldl_addAlgorithm_member [of jwk ?keys ?offered, OF jwk off]
    have "?offered jwk \<in> set (ResponseObjectSigningAlgs (Disc config1))"
      by (simp add: a1)
    with wellFormedKey_after(2) [OF w] after
    show "?offered jwk' = [] \<or> ?offered jwk' \<in> set (ResponseObjectSigningAlgs (Disc config1))"
      by auto
  qed
  from foldl_addAlgorithm_known [OF known] a2 k1
  have algs: "ResponseObjectSigningAlgs (Disc config2) = ResponseObjectSigningAlgs (Disc config1)"
    by simp
  from r1 r2 da di ids algs show ?thesis by blast
qed

theorem validateOIDCIssuerPrivateKeys_discovery_distinct_idempotent_witness:
  "validKeySet exampleExternals [exampleKeyRS256, exampleKeyES256]
   \<and> (\<exists>config' validator'.
         validateOIDCIssuerPrivateKeys exampleExternals
           (keysConfig [exampleKeyRS256, exampleKeyES256]) emptyValidator = Some (config', validator')
         \<and> ResponseObjectSigningAlgs (Disc config') = [''RS256'', ''ES256'']
         \<and> ResponseObjectSigningKeyIDs (Disc config') = [''thumb1'', ''k1'']
         \<and> (\<exists>config'' validator''.
               validateOIDCIssuerPrivateKeys exampleExternals config' validator' = Some (config'', validator'')
               \<and> ResponseObjectSigningAlgs (Disc config'') = [''RS256'', ''ES256'']
               \<and> ResponseObjectSigningKeyIDs (Disc config'') = [''thumb1'', ''k1'']))"
proof -
  let ?config = "keysConfig [exampleKeyRS256, exampleKeyES256]"
  have valid: "validKeySet exampleExternals (IssuerPrivateKeys ?config)"
    by (simp add: validKeySet_def wellFormedKey_def keysConfig_def exampleKeyRS256_offered
        exampleKeyES256_offered)
  have fresh: "distinct (ResponseObjectSigningAlgs (Disc ?config))"
    by (simp add: keysConfig_def emptyDiscovery_def)
  from validateOIDCIssuerPrivateKeys_result [of exampleExternals ?config emptyValidator]
  obtain config1 validator1 where
    r: "validateOIDCIssuerPrivateKeys exampleExternals ?config emptyValidator = Some (config1, validator1)"
    and a: "ResponseObjectSigningAlgs (Disc config1) = [''RS256'', ''ES256'']"
    and i: "ResponseObjectSigningKeyIDs (Disc config1) = [''thumb1'', ''k1'']"
    by (auto simp: keysConfig_def emptyDiscovery_def exampleKeyES256_offered exampleKeyRS256_offered
        addAlgorithm_def keyIDEntry_def)
  from validateOIDCIssuerPrivateKeys_discovery_distinct_idempotent
    [OF valid fresh, of emptyValidator] r a i
  have "\<exists>config'' validator''.
          validateOIDCIssuerPrivateKeys exampleExternals config1 validator1 = Some (config'', validator'')
          \<and> ResponseObjectSigningAlgs (Disc config'') = [''RS256'', ''ES256'']
          \<and> ResponseObjectSigningKeyIDs (Disc config'') = [''thumb1'', ''k1'']"
    by auto
  with valid r a i show ?thesis
    by (auto simp: keysConfig_def)
qed

end
